theory Spec2Isabelle
  imports Main "HOL-Library.Sublist"
begin

section \<open>Data model\<close>

text \<open>
  The repository holds five drafts of one service-worker script: \<^verbatim>\<open>sw.js\<close> (partition
  version v1.1), \<^verbatim>\<open>part_000\<close> (v1.0), \<^verbatim>\<open>part_001\<close> (iOS, network-first, v1.0.1),
  \<^verbatim>\<open>part_002\<close> (v2.1.0) and \<^verbatim>\<open>part_003\<close> (v1.2). Every handler is a sequence of calls
  into the host (Cache API, fetch, lifecycle). The host is modelled by an explicit
  world: the cache storage, a trace of the host calls issued so far, and the number of
  network fetches issued so far.
\<close>

text \<open>A header list: names and values, in the order of the list.\<close>

type_synonym header_list = "(string \<times> string) list"

text \<open>
  A response object: \<^verbatim>\<open>status\<close>, \<^verbatim>\<open>statusText\<close>, \<^verbatim>\<open>type\<close>, header list and body, as
  the script reads them and as the Cache API examines them in \<^verbatim>\<open>put\<close>, \<^verbatim>\<open>add\<close> and
  \<^verbatim>\<open>match\<close> (an opaque response has status 0 and no headers).
\<close>

record response =
  status :: nat
  statusText :: string
  rtype :: string
  headers :: header_list
  body :: string

text \<open>
  A request as the handlers see it. \<open>url\<close> is \<^verbatim>\<open>request.url\<close> (the serialised URL,
  fragment included, which is also \<^verbatim>\<open>new URL(request.url).href\<close>); \<open>url_origin\<close>,
  \<open>url_hostname\<close> and \<open>url_pathname\<close> are the fields of \<^verbatim>\<open>new URL(request.url)\<close>,
  parsed by the host; \<open>req_headers\<close> is the header list of \<^verbatim>\<open>request.headers\<close>.
\<close>

record request =
  req_method :: string
  url :: string
  url_origin :: string
  url_hostname :: string
  url_pathname :: string
  mode :: string
  req_headers :: header_list

text \<open>
  The ambient values of a worker: \<^verbatim>\<open>location.origin\<close>, the draft's \<^verbatim>\<open>BASE_PATH\<close>
  (\<^verbatim>\<open>new URL(self.registration.scope).pathname\<close>), the host's resolution of a URL string
  against the worker's base URL (used when a string is given to \<^verbatim>\<open>caches.match\<close> or
  \<^verbatim>\<open>cache.add\<close>), and \<^verbatim>\<open>navigator.onLine\<close> (\<open>True\<close> when there is no navigator).
\<close>

record env =
  location_origin :: string
  BASE_PATH :: string
  resolve :: "string \<Rightarrow> string"
  online :: bool

text \<open>An entry of a partition: the URL and the headers of the request it was stored
  under, and the response.\<close>

type_synonym cache_entry = "string \<times> header_list \<times> response"

type_synonym cache = "cache_entry list"

type_synonym cache_storage = "(string \<times> cache) list"

datatype event =
    NetFetch string string
  | CachesMatch string
  | CacheMatch string string
  | CachesOpen string
  | CachePut string string
  | CachePutRejected string string
  | CachesDelete string
  | CachesKeys
  | SkipWaiting
  | ClientsClaim

record world =
  store :: cache_storage
  trace :: "event list"
  fetched :: nat

text \<open>
  The network is an oracle: its \<open>n\<close>-th answer is the result of the \<open>n\<close>-th call of
  \<^verbatim>\<open>fetch\<close>, \<open>None\<close> when that call throws. Any behaviour of a real network during one
  run of a handler is such a sequence.
\<close>

type_synonym network = "nat \<Rightarrow> response option"

text \<open>
  The reasons of a rejection: \<open>NetworkError\<close> is the reason with which a failed
  \<^verbatim>\<open>fetch\<close> rejects, thrown again by a handler; \<open>TypeError\<close> is a type error raised by
  the handler's own code (a call on \<^verbatim>\<open>null\<close>); \<open>NoCachedResponse\<close> is the error that
  part_001 constructs.
\<close>

datatype error = NetworkError | TypeError | NoCachedResponse

text \<open>
  What a fetch handler does with the event: it returns without \<^verbatim>\<open>respondWith\<close>
  (\<open>PassThrough\<close>), or the promise given to \<^verbatim>\<open>respondWith\<close> settles with a response,
  with \<^verbatim>\<open>undefined\<close>, or rejects.
\<close>

datatype outcome = PassThrough | Respond response | RespondUndefined | Reject error

text \<open>How the promise given to \<^verbatim>\<open>event.waitUntil\<close> settles.\<close>

datatype settled = Fulfilled | Rejected error

section \<open>String operations of the host language\<close>

text \<open>\<^verbatim>\<open>s.includes(p)\<close>\<close>

fun str_includes :: "string \<Rightarrow> string \<Rightarrow> bool" where
  "str_includes [] p = (p = [])"
| "str_includes (c # cs) p = (prefix p (c # cs) \<or> str_includes cs p)"

text \<open>\<^verbatim>\<open>s.replace(p, r)\<close> for a string pattern: the first occurrence only.\<close>

fun str_replace :: "string \<Rightarrow> string \<Rightarrow> string \<Rightarrow> string" where
  "str_replace [] p r = (if p = [] then r else [])"
| "str_replace (c # cs) p r =
     (if prefix p (c # cs) then r @ drop (length p) (c # cs) else c # str_replace cs p r)"

section \<open>Headers\<close>

text \<open>Header names are compared without regard to the case of ASCII letters.\<close>

definition lower_char :: "char \<Rightarrow> char" where
  "lower_char c =
     (case map_of (zip ''ABCDEFGHIJKLMNOPQRSTUVWXYZ'' ''abcdefghijklmnopqrstuvwxyz'') c of
        None \<Rightarrow> c
      | Some d \<Rightarrow> d)"

definition lower :: "string \<Rightarrow> string" where
  "lower s = map lower_char s"

fun join_values :: "string list \<Rightarrow> string" where
  "join_values [] = []"
| "join_values [v] = v"
| "join_values (v # vs) = v @ '', '' @ join_values vs"

text \<open>\<^verbatim>\<open>headers.get(name)\<close>: the values of the headers of that name, joined by a comma
  and a space; \<open>None\<close> (\<^verbatim>\<open>null\<close>) when there is none.\<close>

definition header_get :: "header_list \<Rightarrow> string \<Rightarrow> string option" where
  "header_get hs name =
     (case map snd (filter (\<lambda>h. lower (fst h) = lower name) hs) of
        [] \<Rightarrow> None
      | vs \<Rightarrow> Some (join_values vs))"

text \<open>\<^verbatim>\<open>request.headers.get('accept')\<close>\<close>

definition accept :: "request \<Rightarrow> string option" where
  "accept req = header_get (req_headers req) ''accept''"

text \<open>The pieces of a header value between its commas, without the blanks around them.\<close>

fun split_commas :: "string \<Rightarrow> string list" where
  "split_commas [] = [[]]"
| "split_commas (c # cs) =
     (if c = CHR '','' then [] # split_commas cs
      else (case split_commas cs of [] \<Rightarrow> [[c]] | x # xs \<Rightarrow> (c # x) # xs))"

definition is_blank :: "char \<Rightarrow> bool" where
  "is_blank c = (c = CHR '' '' \<or> c = CHR 0x09)"

definition trim :: "string \<Rightarrow> string" where
  "trim s = rev (dropWhile is_blank (rev (dropWhile is_blank s)))"

text \<open>The field values of the Vary header of a response.\<close>

definition vary_fields :: "response \<Rightarrow> string list" where
  "vary_fields r =
     (case header_get (headers r) ''vary'' of
        None \<Rightarrow> []
      | Some v \<Rightarrow> map trim (split_commas v))"

section \<open>Host primitives\<close>

text \<open>\<^verbatim>\<open>fetch(request, {cache: m})\<close>: the next answer of the network.\<close>

definition net_fetch :: "network \<Rightarrow> string \<Rightarrow> string \<Rightarrow> world \<Rightarrow> response option \<times> world" where
  "net_fetch net u m w =
     (net (fetched w), w\<lparr>trace := trace w @ [NetFetch u m], fetched := Suc (fetched w)\<rparr>)"

text \<open>A URL without its fragment.\<close>

definition strip_fragment :: "string \<Rightarrow> string" where
  "strip_fragment u = takeWhile (\<lambda>c. c \<noteq> CHR ''#'') u"

text \<open>
  The Cache API's test that a request of URL \<open>u\<close> and headers \<open>hs\<close> matches a cached
  entry: the URLs are equal up to their fragments, and for every field value of the
  cached response's Vary header, the value is not \<^verbatim>\<open>*\<close> and the two requests agree on
  the header of that name.
\<close>

definition entry_matches :: "string \<Rightarrow> header_list \<Rightarrow> cache_entry \<Rightarrow> bool" where
  "entry_matches u hs en =
     (case en of
        (cu, chs, r) \<Rightarrow>
          strip_fragment cu = strip_fragment u \<and>
          list_all (\<lambda>f. f \<noteq> ''*'' \<and> header_get chs f = header_get hs f) (vary_fields r))"

text \<open>\<^verbatim>\<open>cache.match\<close> in one partition: the response of the first entry that matches.\<close>

definition cache_lookup :: "cache \<Rightarrow> string \<Rightarrow> header_list \<Rightarrow> response option" where
  "cache_lookup c u hs = map_option (\<lambda>en. snd (snd en)) (find (entry_matches u hs) c)"

text \<open>A lookup over all partitions, in the order of their creation; the first hit wins.\<close>

fun storage_lookup :: "cache_storage \<Rightarrow> string \<Rightarrow> header_list \<Rightarrow> response option" where
  "storage_lookup [] u hs = None"
| "storage_lookup ((n, c) # rest) u hs =
     (case cache_lookup c u hs of Some r \<Rightarrow> Some r | None \<Rightarrow> storage_lookup rest u hs)"

text \<open>\<^verbatim>\<open>caches.match(s)\<close> for a URL string \<open>s\<close>: the request made of it has no header.\<close>

definition caches_match_str :: "env \<Rightarrow> string \<Rightarrow> world \<Rightarrow> response option \<times> world" where
  "caches_match_str e s w =
     (storage_lookup (store w) (resolve e s) [],
      w\<lparr>trace := trace w @ [CachesMatch (resolve e s)]\<rparr>)"

text \<open>\<^verbatim>\<open>caches.match(request)\<close>: the Cache API answers \<^verbatim>\<open>undefined\<close> for a request
  whose method is not GET.\<close>

definition caches_match :: "request \<Rightarrow> world \<Rightarrow> response option \<times> world" where
  "caches_match req w =
     (if req_method req = ''GET'' then storage_lookup (store w) (url req) (req_headers req)
      else None,
      w\<lparr>trace := trace w @ [CachesMatch (url req)]\<rparr>)"

text \<open>\<^verbatim>\<open>cache.match(s)\<close> on the partition \<open>name\<close>.\<close>

definition partition_lookup ::
  "cache_storage \<Rightarrow> string \<Rightarrow> string \<Rightarrow> header_list \<Rightarrow> response option" where
  "partition_lookup st name u hs =
     (case map_of st name of None \<Rightarrow> None | Some c \<Rightarrow> cache_lookup c u hs)"

definition cache_match_str :: "env \<Rightarrow> string \<Rightarrow> string \<Rightarrow> world \<Rightarrow> response option \<times> world" where
  "cache_match_str e name s w =
     (partition_lookup (store w) name (resolve e s) [],
      w\<lparr>trace := trace w @ [CacheMatch name (resolve e s)]\<rparr>)"

text \<open>\<^verbatim>\<open>caches.open(name)\<close> creates the partition when it does not exist.\<close>

definition caches_open :: "string \<Rightarrow> world \<Rightarrow> world" where
  "caches_open name w =
     w\<lparr>store := (if name \<in> set (map fst (store w)) then store w else store w @ [(name, [])]),
       trace := trace w @ [CachesOpen name]\<rparr>"

definition http_scheme :: "string \<Rightarrow> bool" where
  "http_scheme u = (prefix ''http://'' u \<or> prefix ''https://'' u)"

text \<open>A put removes the entries that the request matches and appends the new entry.\<close>

definition put_entry :: "string \<Rightarrow> header_list \<Rightarrow> response \<Rightarrow> cache \<Rightarrow> cache" where
  "put_entry u hs r c = filter (\<lambda>en. \<not> entry_matches u hs en) c @ [(u, hs, r)]"

text \<open>
  \<^verbatim>\<open>cache.put(request, response)\<close> on the partition \<open>name\<close>, for a request of method
  \<open>m\<close>, URL \<open>u\<close> and headers \<open>hs\<close>. The Cache API rejects the put (a type error, which
  no draft handles: the promise of the put is never awaited) when the method is not
  GET, when the scheme is not HTTP(S), when the status is 206 or when a field value of
  the response's Vary header is \<^verbatim>\<open>*\<close>; otherwise the last write wins.
\<close>

definition cache_put ::
  "string \<Rightarrow> string \<Rightarrow> string \<Rightarrow> header_list \<Rightarrow> response \<Rightarrow> world \<Rightarrow> world" where
  "cache_put name m u hs r w =
     (if m \<noteq> ''GET'' \<or> \<not> http_scheme u \<or> status r = 206 \<or> ''*'' \<in> set (vary_fields r)
      then w\<lparr>trace := trace w @ [CachePutRejected name u]\<rparr>
      else w\<lparr>store := map (\<lambda>(n, c). if n = name then (n, put_entry u hs r c) else (n, c)) (store w),
             trace := trace w @ [CachePut name u]\<rparr>)"

text \<open>\<^verbatim>\<open>caches.delete(name)\<close>\<close>

definition caches_delete :: "string \<Rightarrow> world \<Rightarrow> world" where
  "caches_delete name w =
     w\<lparr>store := filter (\<lambda>p. fst p \<noteq> name) (store w), trace := trace w @ [CachesDelete name]\<rparr>"

text \<open>\<^verbatim>\<open>caches.keys()\<close>\<close>

definition caches_keys :: "world \<Rightarrow> string list \<times> world" where
  "caches_keys w = (map fst (store w), w\<lparr>trace := trace w @ [CachesKeys]\<rparr>)"

definition skipWaiting :: "world \<Rightarrow> world" where
  "skipWaiting w = w\<lparr>trace := trace w @ [SkipWaiting]\<rparr>"

definition clients_claim :: "world \<Rightarrow> world" where
  "clients_claim w = w\<lparr>trace := trace w @ [ClientsClaim]\<rparr>"

text \<open>\<^verbatim>\<open>new Response('', { status: 503, statusText: 'Offline' })\<close>: the host gives a
  response made from a string the content type of plain text.\<close>

definition offline_response :: response where
  "offline_response =
     \<lparr>status = 503, statusText = ''Offline'', rtype = ''default'',
      headers = [(''content-type'', ''text/plain;charset=UTF-8'')], body = ''''\<rparr>"

section \<open>sw.js\<close>

definition STATIC_CACHE_sw :: string where
  "STATIC_CACHE_sw = ''tuba-static-v1.1''"

definition DYNAMIC_CACHE_sw :: string where
  "DYNAMIC_CACHE_sw = ''tuba-dynamic-v1.1''"

text \<open>\<^verbatim>\<open>request.mode === 'navigate' || request.headers.get('accept')?.includes('text/html')\<close>\<close>

definition is_navigate :: "request \<Rightarrow> bool" where
  "is_navigate req =
     (mode req = ''navigate'' \<or>
      (case accept req of None \<Rightarrow> False | Some a \<Rightarrow> str_includes a ''text/html''))"

text \<open>
  The cache-first part of the fetch handler (sw.js lines 85 to 115, and with the other
  partition name part_003 lines 122 to 153): \<open>dyn\<close> is \<^verbatim>\<open>DYNAMIC_CACHE\<close>.
\<close>

definition cache_first :: "string \<Rightarrow> env \<Rightarrow> network \<Rightarrow> request \<Rightarrow> world \<Rightarrow> outcome \<times> world" where
  "cache_first dyn e net req w =
     (case caches_match req w of
        (Some cached, w1) \<Rightarrow> (Respond cached, w1)
      | (None, w1) \<Rightarrow>
          (case net_fetch net (url req) ''default'' w1 of
             (Some networkResponse, w2) \<Rightarrow>
               (if status networkResponse = 200 \<or>
                   rtype networkResponse \<in> set [''basic'', ''cors'', ''opaque'']
                then (Respond networkResponse,
                      cache_put dyn (req_method req) (url req) (req_headers req) networkResponse (caches_open dyn w2))
                else (Respond networkResponse, w2))
           | (None, w2) \<Rightarrow>
               (case (if is_navigate req
                      then caches_match_str e (BASE_PATH e @ ''index.html'') w2
                      else (None, w2)) of
                  (Some shell, w3) \<Rightarrow> (Respond shell, w3)
                | (None, w3) \<Rightarrow>
                    (case (if url_origin req = location_origin e
                           then caches_match_str e
                                  (BASE_PATH e @ str_replace (url_pathname req) (BASE_PATH e) '''') w3
                           else (None, w3)) of
                       (Some pathFallback, w4) \<Rightarrow> (Respond pathFallback, w4)
                     | (None, w4) \<Rightarrow> (Respond offline_response, w4)))))"

text \<open>The fetch handler of sw.js.\<close>

definition fetch_sw :: "env \<Rightarrow> network \<Rightarrow> request \<Rightarrow> world \<Rightarrow> outcome \<times> world" where
  "fetch_sw e net req w =
     (if req_method req \<noteq> ''GET'' then (PassThrough, w)
      else if is_navigate req then
        (case net_fetch net (url req) ''default'' w of
           (Some fresh, w1) \<Rightarrow> (Respond fresh, w1)
         | (None, w1) \<Rightarrow>
             (case caches_match_str e (BASE_PATH e @ ''index.html'') w1 of
                (Some shell, w2) \<Rightarrow> (Respond shell, w2)
              | (None, w2) \<Rightarrow> cache_first DYNAMIC_CACHE_sw e net req w2))
      else cache_first DYNAMIC_CACHE_sw e net req w)"

section \<open>part_000\<close>

definition STATIC_CACHE_p0 :: string where
  "STATIC_CACHE_p0 = ''tuba-static-v1.0''"

definition DYNAMIC_CACHE_p0 :: string where
  "DYNAMIC_CACHE_p0 = ''tuba-dynamic-v1.0''"

text \<open>
  The fetch handler of part_000. It has no test of the method. In the error handler,
  \<^verbatim>\<open>request.headers.get('accept').includes(...)\<close> throws a type error when the header
  is absent; \<^verbatim>\<open>caches.match('/index.html')\<close> is returned as it is, \<^verbatim>\<open>undefined\<close>
  included.
\<close>

definition fetch_p0 :: "env \<Rightarrow> network \<Rightarrow> request \<Rightarrow> world \<Rightarrow> outcome \<times> world" where
  "fetch_p0 e net req w =
     (if url_origin req = location_origin e then
        (case caches_match req w of
           (Some cachedResponse, w1) \<Rightarrow> (Respond cachedResponse, w1)
         | (None, w1) \<Rightarrow>
             (case net_fetch net (url req) ''default'' w1 of
                (Some networkResponse, w2) \<Rightarrow>
                  (if status networkResponse \<noteq> 200 \<or> rtype networkResponse \<noteq> ''basic''
                   then (Respond networkResponse, w2)
                   else (Respond networkResponse,
                         cache_put DYNAMIC_CACHE_p0 (req_method req) (url req) (req_headers req) networkResponse
                           (caches_open DYNAMIC_CACHE_p0 w2)))
              | (None, w2) \<Rightarrow>
                  (case accept req of
                     None \<Rightarrow> (Reject TypeError, w2)
                   | Some a \<Rightarrow>
                       (if str_includes a ''text/html'' then
                          (case caches_match_str e ''/index.html'' w2 of
                             (Some r, w3) \<Rightarrow> (Respond r, w3)
                           | (None, w3) \<Rightarrow> (RespondUndefined, w3))
                        else (Reject NetworkError, w2)))))
      else (PassThrough, w))"

section \<open>part_001\<close>

definition STATIC_CACHE_p1 :: string where
  "STATIC_CACHE_p1 = ''tuba-static-v1.0.1''"

definition DYNAMIC_CACHE_p1 :: string where
  "DYNAMIC_CACHE_p1 = ''tuba-dynamic-v1.0.1''"

text \<open>The fetch handler of part_001: network first.\<close>

definition fetch_p1 :: "env \<Rightarrow> network \<Rightarrow> request \<Rightarrow> world \<Rightarrow> outcome \<times> world" where
  "fetch_p1 e net req w =
     (if req_method req \<noteq> ''GET'' then (PassThrough, w)
      else if \<not> prefix ''http'' (url req) then (PassThrough, w)
      else
        (case net_fetch net (url req) ''default'' w of
           (Some response, w1) \<Rightarrow>
             (if status response \<noteq> 200 \<or> rtype response = ''error''
              then (Respond response, w1)
              else (Respond response,
                    cache_put DYNAMIC_CACHE_p1 (req_method req) (url req) (req_headers req) response
                      (caches_open DYNAMIC_CACHE_p1 w1)))
         | (None, w1) \<Rightarrow>
             (case caches_match req w1 of
                (Some cachedResponse, w2) \<Rightarrow> (Respond cachedResponse, w2)
              | (None, w2) \<Rightarrow>
                  (if mode req = ''navigate'' then
                     (case caches_match_str e ''./index.html'' w2 of
                        (Some r, w3) \<Rightarrow> (Respond r, w3)
                      | (None, w3) \<Rightarrow> (RespondUndefined, w3))
                   else (Reject NoCachedResponse, w2)))))"

section \<open>part_002\<close>

definition CACHE_NAME_p2 :: string where
  "CACHE_NAME_p2 = ''tuba-v2.1.0''"

definition RUNTIME_CACHE_p2 :: string where
  "RUNTIME_CACHE_p2 = ''tuba-runtime-v2.1.0''"

text \<open>\<^verbatim>\<open>new Response(JSON.stringify({ offline: true }), { headers: ... })\<close>; a
  header list holds its names in lower case.\<close>

definition offline_json :: response where
  \<open>offline_json =
     \<lparr>status = 200, statusText = '''', rtype = ''default'',
      headers = [(''content-type'', ''application/json'')], body = ''{"offline":true}''\<rparr>\<close>

text \<open>\<^verbatim>\<open>new Response('Offline - resource not available', { status: 503, ... })\<close>\<close>

definition offline_text :: response where
  "offline_text =
     \<lparr>status = 503, statusText = ''Service Unavailable'', rtype = ''default'',
      headers = [(''content-type'', ''text/plain'')], body = ''Offline - resource not available''\<rparr>"

text \<open>The first test of the fetch handler of part_002: a cross-origin request that is
  not for one of the named hosts is skipped.\<close>

definition skipped_p2 :: "env \<Rightarrow> request \<Rightarrow> bool" where
  "skipped_p2 e req =
     (url_origin req \<noteq> location_origin e \<and>
      \<not> str_includes (url req) ''supabase'' \<and>
      \<not> str_includes (url req) ''cdnjs.cloudflare.com'' \<and>
      \<not> str_includes (url req) ''cdn.jsdelivr.net'')"

text \<open>The fetch handler of part_002. It has no test of the method.\<close>

definition fetch_p2 :: "env \<Rightarrow> network \<Rightarrow> request \<Rightarrow> world \<Rightarrow> outcome \<times> world" where
  "fetch_p2 e net req w =
     (if skipped_p2 e req then (PassThrough, w)
      else if str_includes (url req) ''supabase.co'' then
        (case net_fetch net (url req) ''default'' w of
           (Some response, w1) \<Rightarrow>
             (Respond response,
              cache_put RUNTIME_CACHE_p2 (req_method req) (url req) (req_headers req) response
                (caches_open RUNTIME_CACHE_p2 w1))
         | (None, w1) \<Rightarrow>
             (case caches_match req w1 of
                (Some cachedResponse, w2) \<Rightarrow> (Respond cachedResponse, w2)
              | (None, w2) \<Rightarrow> (Respond offline_json, w2)))
      else
        (case caches_match req w of
           (Some cachedResponse, w1) \<Rightarrow> (Respond cachedResponse, w1)
         | (None, w1) \<Rightarrow>
             (case net_fetch net (url req) ''default'' w1 of
                (Some response, w2) \<Rightarrow>
                  (if status response \<noteq> 200 \<or> rtype response = ''error''
                   then (Respond response, w2)
                   else
                     (let cacheName =
                        (if url_origin req = location_origin e
                         then CACHE_NAME_p2 else RUNTIME_CACHE_p2)
                      in (Respond response,
                          cache_put cacheName (req_method req) (url req) (req_headers req) response
                            (caches_open cacheName w2))))
              | (None, w2) \<Rightarrow>
                  (if mode req = ''navigate'' then
                     (case caches_match_str e ''/index.html'' w2 of
                        (Some r, w3) \<Rightarrow> (Respond r, w3)
                      | (None, w3) \<Rightarrow> (RespondUndefined, w3))
                   else (Respond offline_text, w2)))))"

section \<open>part_003\<close>

definition STATIC_CACHE_p3 :: string where
  "STATIC_CACHE_p3 = ''tuba-static-v1.2''"

definition DYNAMIC_CACHE_p3 :: string where
  "DYNAMIC_CACHE_p3 = ''tuba-dynamic-v1.2''"

text \<open>
  The three lookups of the app shell, each made only when the one before found nothing:
  \<^verbatim>\<open>BASE_PATH + 'index.html'\<close>, \<^verbatim>\<open>BASE_PATH\<close>, \<^verbatim>\<open>'index.html'\<close> (part_003 lines 103 to
  105, and again lines 113 to 118).
\<close>

definition match_shell :: "env \<Rightarrow> world \<Rightarrow> response option \<times> world" where
  "match_shell e w =
     (case caches_match_str e (BASE_PATH e @ ''index.html'') w of
        (Some shell1, w1) \<Rightarrow> (Some shell1, w1)
      | (None, w1) \<Rightarrow>
          (case caches_match_str e (BASE_PATH e) w1 of
             (Some shell2, w2) \<Rightarrow> (Some shell2, w2)
           | (None, w2) \<Rightarrow> caches_match_str e ''index.html'' w2))"

text \<open>The fetch handler of part_003.\<close>

definition fetch_p3 :: "env \<Rightarrow> network \<Rightarrow> request \<Rightarrow> world \<Rightarrow> outcome \<times> world" where
  "fetch_p3 e net req w =
     (if req_method req \<noteq> ''GET'' then (PassThrough, w)
      else if suffix ''supabase.co'' (url_hostname req) then
        (case net_fetch net (url req) ''no-store'' w of
           (Some fresh, w1) \<Rightarrow> (Respond fresh, w1)
         | (None, w1) \<Rightarrow> (Respond offline_response, w1))
      else if is_navigate req then
        (case (if \<not> online e then match_shell e w else (None, w)) of
           (Some offlineShell, w1) \<Rightarrow> (Respond offlineShell, w1)
         | (None, w1) \<Rightarrow>
             (case net_fetch net (url req) ''default'' w1 of
                (Some fresh, w2) \<Rightarrow> (Respond fresh, w2)
              | (None, w2) \<Rightarrow>
                  (case match_shell e w2 of
                     (Some shell, w3) \<Rightarrow> (Respond shell, w3)
                   | (None, w3) \<Rightarrow> cache_first DYNAMIC_CACHE_p3 e net req w3)))
      else cache_first DYNAMIC_CACHE_p3 e net req w)"

section \<open>Activation\<close>

text \<open>
  \<^verbatim>\<open>Promise.all(cacheNames.map(cacheName => { if (cond) return caches.delete(cacheName); }))\<close>:
  every listed name that meets the condition is deleted.
\<close>

definition sweep :: "(string \<Rightarrow> bool) \<Rightarrow> string list \<Rightarrow> world \<Rightarrow> world" where
  "sweep cond cacheNames w =
     foldl (\<lambda>w' cacheName. if cond cacheName then caches_delete cacheName w' else w') w cacheNames"

text \<open>The activate handler of sw.js, part_000 and part_002, which differ in the two
  partition names only.\<close>

definition activate_keep :: "string \<Rightarrow> string \<Rightarrow> world \<Rightarrow> settled \<times> world" where
  "activate_keep st dyn w =
     (case caches_keys w of
        (cacheNames, w1) \<Rightarrow>
          (Fulfilled,
           clients_claim (sweep (\<lambda>cacheName. cacheName \<noteq> st \<and> cacheName \<noteq> dyn) cacheNames w1)))"

definition activate_sw :: "world \<Rightarrow> settled \<times> world" where
  "activate_sw = activate_keep STATIC_CACHE_sw DYNAMIC_CACHE_sw"

definition activate_p0 :: "world \<Rightarrow> settled \<times> world" where
  "activate_p0 = activate_keep STATIC_CACHE_p0 DYNAMIC_CACHE_p0"

definition activate_p2 :: "world \<Rightarrow> settled \<times> world" where
  "activate_p2 = activate_keep CACHE_NAME_p2 RUNTIME_CACHE_p2"

text \<open>The activate handler of part_001 deletes only names that start with \<^verbatim>\<open>tuba-\<close>.\<close>

definition activate_p1 :: "world \<Rightarrow> settled \<times> world" where
  "activate_p1 w =
     (case caches_keys w of
        (cacheNames, w1) \<Rightarrow>
          (Fulfilled,
           clients_claim
             (sweep (\<lambda>cacheName. prefix ''tuba-'' cacheName \<and> cacheName \<noteq> STATIC_CACHE_p1 \<and>
                                 cacheName \<noteq> DYNAMIC_CACHE_p1) cacheNames w1)))"

text \<open>
  The shell-presence guard of part_003: \<^verbatim>\<open>hasShell\<close> is the first of three lookups in
  the static partition that finds an entry.
\<close>

definition has_shell :: "env \<Rightarrow> world \<Rightarrow> bool \<times> world" where
  "has_shell e w =
     (case cache_match_str e STATIC_CACHE_p3 (BASE_PATH e @ ''index.html'') w of
        (Some r1, w1) \<Rightarrow> (True, w1)
      | (None, w1) \<Rightarrow>
          (case cache_match_str e STATIC_CACHE_p3 ''index.html'' w1 of
             (Some r2, w2) \<Rightarrow> (True, w2)
           | (None, w2) \<Rightarrow>
               (case cache_match_str e STATIC_CACHE_p3 (BASE_PATH e) w2 of
                  (Some r3, w3) \<Rightarrow> (True, w3)
                | (None, w3) \<Rightarrow> (False, w3))))"

definition activate_p3 :: "env \<Rightarrow> world \<Rightarrow> settled \<times> world" where
  "activate_p3 e w =
     (case has_shell e (caches_open STATIC_CACHE_p3 w) of
        (hasShell, w1) \<Rightarrow>
          (case caches_keys w1 of
             (cacheNames, w2) \<Rightarrow>
               (Fulfilled,
                clients_claim
                  (sweep (\<lambda>cacheName. hasShell \<and> cacheName \<noteq> STATIC_CACHE_p3 \<and>
                                      cacheName \<noteq> DYNAMIC_CACHE_p3) cacheNames w2))))"

section \<open>Installation\<close>

definition CDN_ASSETS :: "string list" where
  "CDN_ASSETS =
     [''https://cdn.jsdelivr.net/npm/@supabase/supabase-js@2'',
      ''https://cdnjs.cloudflare.com/ajax/libs/jspdf/2.5.1/jspdf.umd.min.js'',
      ''https://cdnjs.cloudflare.com/ajax/libs/xlsx/0.18.5/xlsx.full.min.js'',
      ''https://cdn.jsdelivr.net/npm/chart.js@4.4.0/dist/chart.umd.min.js'']"

definition STATIC_ASSETS_sw :: "env \<Rightarrow> string list" where
  "STATIC_ASSETS_sw e =
     [BASE_PATH e @ ''index.html'', BASE_PATH e @ ''manifest.json'', BASE_PATH e @ ''tuba-icon.png'']
     @ CDN_ASSETS"

definition STATIC_ASSETS_p0 :: "string list" where
  "STATIC_ASSETS_p0 =
     [''/'', ''/index.html'', ''/manifest.json'', ''/tuba-icon.png'', ''/tuba-duplicate-cleaner.js'']"

definition STATIC_ASSETS_p1 :: "string list" where
  "STATIC_ASSETS_p1 = [''./'', ''./index.html'', ''./tuba-icon.png'']"

definition urlsToCache :: "string list" where
  "urlsToCache = [''/'', ''/index.html'', ''/manifest.json'', ''/tuba-icon.png''] @ CDN_ASSETS"

definition STATIC_ASSETS_p3 :: "env \<Rightarrow> string list" where
  "STATIC_ASSETS_p3 e =
     [BASE_PATH e @ ''index.html'', BASE_PATH e, BASE_PATH e @ ''manifest.json'',
      BASE_PATH e @ ''tuba-icon.png'']"

text \<open>The fetches of a list of URLs, in the order of the list.\<close>

fun fetch_each :: "network \<Rightarrow> string \<Rightarrow> string list \<Rightarrow> world \<Rightarrow> response option list \<times> world" where
  "fetch_each net m [] w = ([], w)"
| "fetch_each net m (u # us) w =
     (case net_fetch net u m w of
        (r, w1) \<Rightarrow> (case fetch_each net m us w1 of (rs, w2) \<Rightarrow> (r # rs, w2)))"

text \<open>A fetched asset can be added when the fetch did not throw, the response is
  \<^verbatim>\<open>ok\<close> (status 200 to 299) and not partial (206), and no field value of its Vary
  header is \<^verbatim>\<open>*\<close>.\<close>

definition addable :: "response option \<Rightarrow> bool" where
  "addable x =
     (case x of
        None \<Rightarrow> False
      | Some r \<Rightarrow>
          200 \<le> status r \<and> status r \<le> 299 \<and> status r \<noteq> 206 \<and> ''*'' \<notin> set (vary_fields r))"

fun put_each :: "string \<Rightarrow> (string \<times> response option) list \<Rightarrow> world \<Rightarrow> world" where
  "put_each name [] w = w"
| "put_each name ((u, None) # rest) w = put_each name rest w"
| "put_each name ((u, Some r) # rest) w = put_each name rest (cache_put name ''GET'' u [] r w)"

text \<open>
  \<^verbatim>\<open>cache.addAll(urls)\<close> on the partition \<open>name\<close>, with requests of cache mode \<open>m\<close>:
  the Cache API fetches every URL and stores all the responses, or, when a URL is not
  HTTP(S), a fetch throws, a response is not addable or two of the URLs are equal up to
  their fragments, rejects and stores nothing. The result is \<open>True\<close> when the promise
  fulfils.
\<close>

definition cache_addAll :: "env \<Rightarrow> network \<Rightarrow> string \<Rightarrow> string \<Rightarrow> string list \<Rightarrow> world \<Rightarrow> bool \<times> world" where
  "cache_addAll e net name m urls w =
     (if \<not> list_all (\<lambda>u. http_scheme (resolve e u)) urls then (False, w)
      else
        (case fetch_each net m (map (resolve e) urls) w of
           (rs, w1) \<Rightarrow>
             (if list_all addable rs \<and> distinct (map (\<lambda>u. strip_fragment (resolve e u)) urls)
              then (True, put_each name (zip (map (resolve e) urls) rs) w1)
              else (False, w1))))"

text \<open>\<^verbatim>\<open>cache.add(url)\<close> is \<^verbatim>\<open>cache.addAll([url])\<close>.\<close>

definition cache_add :: "env \<Rightarrow> network \<Rightarrow> string \<Rightarrow> string \<Rightarrow> world \<Rightarrow> bool \<times> world" where
  "cache_add e net name u w = cache_addAll e net name ''default'' [u] w"

text \<open>
  The install handler of sw.js, part_000 and part_002 (which asks for cache mode
  \<^verbatim>\<open>reload\<close>): open the static partition, add all assets, then \<^verbatim>\<open>skipWaiting\<close>; the
  final \<^verbatim>\<open>catch\<close> logs a failure, so the promise given to \<^verbatim>\<open>waitUntil\<close> fulfils.
\<close>

definition install_addAll :: "string \<Rightarrow> string \<Rightarrow> string list \<Rightarrow> env \<Rightarrow> network \<Rightarrow> world \<Rightarrow> settled \<times> world" where
  "install_addAll st m assets e net w =
     (case cache_addAll e net st m assets (caches_open st w) of
        (True, w1) \<Rightarrow> (Fulfilled, skipWaiting w1)
      | (False, w1) \<Rightarrow> (Fulfilled, w1))"

definition install_sw :: "env \<Rightarrow> network \<Rightarrow> world \<Rightarrow> settled \<times> world" where
  "install_sw e = install_addAll STATIC_CACHE_sw ''default'' (STATIC_ASSETS_sw e) e"

definition install_p0 :: "env \<Rightarrow> network \<Rightarrow> world \<Rightarrow> settled \<times> world" where
  "install_p0 e = install_addAll STATIC_CACHE_p0 ''default'' STATIC_ASSETS_p0 e"

definition install_p2 :: "env \<Rightarrow> network \<Rightarrow> world \<Rightarrow> settled \<times> world" where
  "install_p2 e = install_addAll CACHE_NAME_p2 ''reload'' urlsToCache e"

text \<open>
  \<^verbatim>\<open>Promise.all(STATIC_ASSETS.map(url => cache.add(url).catch(...)))\<close>: every asset is
  added on its own and a failure is logged.
\<close>

fun add_each :: "env \<Rightarrow> network \<Rightarrow> string \<Rightarrow> string list \<Rightarrow> world \<Rightarrow> world" where
  "add_each e net name [] w = w"
| "add_each e net name (u # us) w = add_each e net name us (snd (cache_add e net name u w))"

text \<open>The install handler of part_001 and part_003.\<close>

definition install_each :: "string \<Rightarrow> string list \<Rightarrow> env \<Rightarrow> network \<Rightarrow> world \<Rightarrow> settled \<times> world" where
  "install_each st assets e net w =
     (Fulfilled, skipWaiting (add_each e net st assets (caches_open st w)))"

definition install_p1 :: "env \<Rightarrow> network \<Rightarrow> world \<Rightarrow> settled \<times> world" where
  "install_p1 e = install_each STATIC_CACHE_p1 STATIC_ASSETS_p1 e"

definition install_p3 :: "env \<Rightarrow> network \<Rightarrow> world \<Rightarrow> settled \<times> world" where
  "install_p3 e = install_each STATIC_CACHE_p3 (STATIC_ASSETS_p3 e) e"

section \<open>Messages\<close>

text \<open>\<^verbatim>\<open>event.data\<close> of a message event: \<open>None\<close> when it is falsy, else its \<^verbatim>\<open>type\<close>
  field, \<open>None\<close> when that is not a string.\<close>

type_synonym message_data = "string option option"

text \<open>\<^verbatim>\<open>event.data && event.data.type === t\<close>\<close>

definition has_type :: "message_data \<Rightarrow> string \<Rightarrow> bool" where
  "has_type d t = (case d of None \<Rightarrow> False | Some ty \<Rightarrow> ty = Some t)"

text \<open>The message handler of part_001.\<close>

definition message_p1 :: "message_data \<Rightarrow> world \<Rightarrow> world" where
  "message_p1 d w =
     (let w1 = (if has_type d ''SKIP_WAITING'' then skipWaiting w else w)
      in if has_type d ''CLEAR_CACHE'' then
           (case caches_keys w1 of
              (cacheNames, w2) \<Rightarrow> sweep (\<lambda>cacheName. prefix ''tuba-'' cacheName) cacheNames w2)
         else w1)"

section \<open>Example host and inputs\<close>

text \<open>
  An example host: the worker script is \<^verbatim>\<open>https://app.example/sw.js\<close> and its scope is
  the root of that origin, so a URL string resolves against \<^verbatim>\<open>https://app.example/\<close>.
\<close>

definition example_resolve :: "string \<Rightarrow> string" where
  "example_resolve s =
     (if prefix ''http'' s then s
      else if prefix ''/'' s then ''https://app.example'' @ s
      else if prefix ''./'' s then ''https://app.example/'' @ drop 2 s
      else ''https://app.example/'' @ s)"

definition example_env :: env where
  "example_env =
     \<lparr>location_origin = ''https://app.example'', BASE_PATH = ''/'',
      resolve = example_resolve, online = True\<rparr>"

definition net_down :: network where
  "net_down n = None"

definition net_always :: "response \<Rightarrow> network" where
  "net_always r n = Some r"

definition empty_world :: world where
  "empty_world = \<lparr>store = [], trace = [], fetched = 0\<rparr>"

definition page :: "nat \<Rightarrow> string \<Rightarrow> string \<Rightarrow> response" where
  "page s t b = \<lparr>status = s, statusText = '''', rtype = t, headers = [], body = b\<rparr>"

text \<open>A world whose static partition of sw.js holds the app shell and one script.\<close>

definition shell_world :: world where
  "shell_world =
     \<lparr>store = [(STATIC_CACHE_sw,
                 [(''https://app.example/index.html'', [], page 200 ''basic'' ''<html>shell</html>''),
                  (''https://app.example/app.js'', [], page 200 ''basic'' ''app()'')])],
      trace = [], fetched = 0\<rparr>"

definition get_request :: "string \<Rightarrow> string \<Rightarrow> string \<Rightarrow> string \<Rightarrow> string \<Rightarrow> string option \<Rightarrow> request" where
  "get_request u orig host path m a =
     \<lparr>req_method = ''GET'', url = u, url_origin = orig, url_hostname = host, url_pathname = path,
      mode = m, req_headers = (case a of None \<Rightarrow> [] | Some v \<Rightarrow> [(''accept'', v)])\<rparr>"

text \<open>A navigation to the app shell, a script request, and the same script with a query.\<close>

definition navigation_request :: request where
  "navigation_request =
     get_request ''https://app.example/index.html'' ''https://app.example'' ''app.example''
       ''/index.html'' ''navigate'' (Some ''text/html,application/xhtml+xml'')"

definition script_request :: request where
  "script_request =
     get_request ''https://app.example/app.js'' ''https://app.example'' ''app.example''
       ''/app.js'' ''no-cors'' (Some ''*/*'')"


definition post_request :: request where
  "post_request =
     \<lparr>req_method = ''POST'', url = ''https://app.example/api/save'',
      url_origin = ''https://app.example'', url_hostname = ''app.example'',
      url_pathname = ''/api/save'', mode = ''cors'', req_headers = [(''accept'', ''*/*'')]\<rparr>"

definition extension_request :: request where
  "extension_request =
     get_request ''chrome-extension://abcdef/inject.js'' ''chrome-extension://abcdef'' ''abcdef''
       ''/inject.js'' ''no-cors'' (Some ''*/*'')"

text \<open>A same-origin request that carries no Accept header.\<close>

definition bare_request :: request where
  "bare_request =
     get_request ''https://app.example/data.json'' ''https://app.example'' ''app.example''
       ''/data.json'' ''cors'' None"

text \<open>A cross-origin script, as a CDN serves it to a \<^verbatim>\<open>no-cors\<close> request.\<close>

definition cdn_request :: request where
  "cdn_request =
     get_request ''https://cdn.example/lib.js'' ''https://cdn.example'' ''cdn.example''
       ''/lib.js'' ''no-cors'' (Some ''*/*'')"

text \<open>A read from and a write to the external API host.\<close>

definition api_get_request :: request where
  "api_get_request =
     get_request ''https://xyz.supabase.co/rest/v1/sales'' ''https://xyz.supabase.co''
       ''xyz.supabase.co'' ''/rest/v1/sales'' ''cors'' (Some ''application/json'')"

definition api_post_request :: request where
  "api_post_request =
     \<lparr>req_method = ''POST'', url = ''https://xyz.supabase.co/rest/v1/sales'',
      url_origin = ''https://xyz.supabase.co'', url_hostname = ''xyz.supabase.co'',
      url_pathname = ''/rest/v1/sales'', mode = ''cors'',
      req_headers = [(''accept'', ''application/json'')]\<rparr>"

text \<open>Worlds with partitions of an older version and of another library.\<close>

definition stale_world_p1 :: world where
  "stale_world_p1 =
     \<lparr>store = [(''tuba-static-v1.0'', []), (''workbox-precache-v2'', []), (STATIC_CACHE_p1, [])],
      trace = [], fetched = 0\<rparr>"

definition stale_world_p3 :: world where
  "stale_world_p3 =
     \<lparr>store = [(''tuba-static-v1.1'', []),
               (STATIC_CACHE_p3,
                [(''https://app.example/index.html'', [], page 200 ''basic'' ''<html>shell</html>'')]),
               (''workbox-precache-v2'', [])],
      trace = [], fetched = 0\<rparr>"


text \<open>A response that no cache accepts: its Vary header is \<^verbatim>\<open>*\<close>.\<close>

definition vary_star_page :: response where
  "vary_star_page = (page 200 ''basic'' ''body'')\<lparr>headers := [(''Vary'', ''*'')]\<rparr>"

text \<open>A network that gives one response to the first fetch and another to every later
  one.\<close>

definition net_first_then :: "response \<Rightarrow> response \<Rightarrow> network" where
  "net_first_then r r' n = (if n = 0 then Some r else Some r')"

text \<open>The script, requested with a fragment.\<close>

definition anchored_script_request :: request where
  "anchored_script_request =
     get_request ''https://app.example/app.js#top'' ''https://app.example'' ''app.example''
       ''/app.js'' ''no-cors'' (Some ''*/*'')"


section \<open>Properties of the fetch handlers\<close>

text \<open>The definitions that evaluate a header or a cache lookup on given data.\<close>

lemmas header_defs = accept_def header_get_def lower_def lower_char_def

lemmas lookup_defs =
  cache_lookup_def entry_matches_def strip_fragment_def vary_fields_def header_get_def
  lower_def lower_char_def trim_def is_blank_def

text \<open>Once the cache-first part is reached, \<^verbatim>\<open>respondWith\<close> has been called.\<close>

lemma fst_cache_first_not_pass: "fst (cache_first dyn e net req w) \<noteq> PassThrough"
  by (simp add: cache_first_def caches_match_def net_fetch_def caches_match_str_def
      split: option.splits prod.splits)

text \<open>
  C1, as the drafts have it: a GET request whose identity is in some partition is
  answered with the cached response, after one cache lookup and no network fetch,
  when it is not a navigation and does not accept HTML (sw.js), and in part_003 also
  is not for the external API host; part_000 does so for every same-origin GET request
  and part_002 for every GET request it does not skip and that is not for the API host.
\<close>

theorem cached_request_served_from_cache:
  assumes "req_method req = ''GET''" and "storage_lookup (store w) (url req) (req_headers req) = Some cached"
  shows "(\<not> is_navigate req \<longrightarrow>
            fetch_sw e net req w =
              (Respond cached, w\<lparr>trace := trace w @ [CachesMatch (url req)]\<rparr>)) \<and>
         (\<not> is_navigate req \<and> \<not> suffix ''supabase.co'' (url_hostname req) \<longrightarrow>
            fetch_p3 e net req w =
              (Respond cached, w\<lparr>trace := trace w @ [CachesMatch (url req)]\<rparr>)) \<and>
         (url_origin req = location_origin e \<longrightarrow>
            fetch_p0 e net req w =
              (Respond cached, w\<lparr>trace := trace w @ [CachesMatch (url req)]\<rparr>)) \<and>
         (\<not> skipped_p2 e req \<and> \<not> str_includes (url req) ''supabase.co'' \<longrightarrow>
            fetch_p2 e net req w =
              (Respond cached, w\<lparr>trace := trace w @ [CachesMatch (url req)]\<rparr>))"
  using assms
  by (simp add: fetch_sw_def fetch_p3_def fetch_p0_def fetch_p2_def cache_first_def
      caches_match_def)

theorem cached_request_served_from_cache_witness:
  "req_method script_request = ''GET'' \<and>
   storage_lookup (store shell_world) (url script_request) (req_headers script_request) = Some (page 200 ''basic'' ''app()'') \<and>
   \<not> is_navigate script_request \<and>
   \<not> suffix ''supabase.co'' (url_hostname script_request) \<and>
   url_origin script_request = location_origin example_env \<and>
   \<not> skipped_p2 example_env script_request \<and>
   \<not> str_includes (url script_request) ''supabase.co'' \<and>
   fetch_sw example_env net_down script_request shell_world =
     (Respond (page 200 ''basic'' ''app()''),
      shell_world\<lparr>trace := [CachesMatch ''https://app.example/app.js'']\<rparr>) \<and>
   fetch_p2 example_env net_down script_request shell_world =
     (Respond (page 200 ''basic'' ''app()''),
      shell_world\<lparr>trace := [CachesMatch ''https://app.example/app.js'']\<rparr>) \<and>
   fetch_sw example_env net_down anchored_script_request shell_world =
     (Respond (page 200 ''basic'' ''app()''),
      shell_world\<lparr>trace := [CachesMatch ''https://app.example/app.js#top'']\<rparr>)"
proof -
  have g: "req_method script_request = ''GET''"
    by (simp add: script_request_def get_request_def)
  have h: "storage_lookup (store shell_world) (url script_request) (req_headers script_request) =
             Some (page 200 ''basic'' ''app()'')"
    by (simp add: script_request_def get_request_def shell_world_def lookup_defs page_def)
  have n: "\<not> is_navigate script_request"
    by (simp add: script_request_def get_request_def is_navigate_def header_defs)
  have s: "\<not> suffix ''supabase.co'' (url_hostname script_request)"
    by (simp add: script_request_def get_request_def suffix_to_prefix)
  have o: "url_origin script_request = location_origin example_env"
    by (simp add: script_request_def get_request_def example_env_def)
  have k: "\<not> skipped_p2 example_env script_request"
    by (simp add: skipped_p2_def o)
  have i: "\<not> str_includes (url script_request) ''supabase.co''"
    by (simp add: script_request_def get_request_def)
  have t: "trace shell_world = []" and u: "url script_request = ''https://app.example/app.js''"
    by (simp_all add: shell_world_def script_request_def get_request_def)
  have g': "req_method anchored_script_request = ''GET''"
    by (simp add: anchored_script_request_def get_request_def)
  have h': "storage_lookup (store shell_world) (url anchored_script_request)
              (req_headers anchored_script_request) = Some (page 200 ''basic'' ''app()'')"
    by (simp add: anchored_script_request_def get_request_def shell_world_def lookup_defs page_def)
  have n': "\<not> is_navigate anchored_script_request"
    by (simp add: anchored_script_request_def get_request_def is_navigate_def header_defs)
  have u': "url anchored_script_request = ''https://app.example/app.js#top''"
    by (simp add: anchored_script_request_def get_request_def)
  have A: "fetch_sw example_env net_down script_request shell_world =
             (Respond (page 200 ''basic'' ''app()''),
              shell_world\<lparr>trace := [CachesMatch ''https://app.example/app.js'']\<rparr>)"
    and B: "fetch_p2 example_env net_down script_request shell_world =
             (Respond (page 200 ''basic'' ''app()''),
              shell_world\<lparr>trace := [CachesMatch ''https://app.example/app.js'']\<rparr>)"
    using cached_request_served_from_cache [OF g h, of example_env net_down] n k i t u
    by simp_all
  have C: "fetch_sw example_env net_down anchored_script_request shell_world =
             (Respond (page 200 ''basic'' ''app()''),
              shell_world\<lparr>trace := [CachesMatch ''https://app.example/app.js#top'']\<rparr>)"
    using cached_request_served_from_cache [OF g' h', of example_env net_down] n' t u'
    by simp
  show ?thesis
    by (intro conjI g h n s o k i A B C)
qed

text \<open>
  C1 as stated fails in sw.js for a navigation: the app shell is in the static
  partition, and the handler still fetches from the network and answers with the
  fresh response.
\<close>

theorem cached_navigation_fetches_network:
  "req_method navigation_request = ''GET'' \<and>
   storage_lookup (store shell_world) (url navigation_request) (req_headers navigation_request) =
     Some (page 200 ''basic'' ''<html>shell</html>'') \<and>
   fetch_sw example_env (net_always (page 200 ''basic'' ''<html>fresh</html>''))
       navigation_request shell_world =
     (Respond (page 200 ''basic'' ''<html>fresh</html>''),
      shell_world\<lparr>trace := [NetFetch ''https://app.example/index.html'' ''default''],
                  fetched := 1\<rparr>)"
  by (simp add: navigation_request_def get_request_def shell_world_def fetch_sw_def
      is_navigate_def header_defs net_fetch_def net_always_def lookup_defs page_def)

text \<open>
  C5, as the drafts have it: sw.js, part_001 and part_003 return at once for a request
  whose method is not GET: no \<^verbatim>\<open>respondWith\<close>, no host call, the world unchanged;
  sw.js and part_003 pass through no other request. (part_000 and part_002 do not test
  the method.)
\<close>

theorem non_get_passes_through:
  "(req_method req \<noteq> ''GET'' \<longrightarrow>
      fetch_sw e net req w = (PassThrough, w) \<and>
      fetch_p1 e net req w = (PassThrough, w) \<and>
      fetch_p3 e net req w = (PassThrough, w)) \<and>
   (fst (fetch_sw e net req w) = PassThrough \<longleftrightarrow> req_method req \<noteq> ''GET'') \<and>
   (fst (fetch_p3 e net req w) = PassThrough \<longleftrightarrow> req_method req \<noteq> ''GET'')"
  by (simp add: fetch_sw_def fetch_p1_def fetch_p3_def fst_cache_first_not_pass net_fetch_def
      caches_match_str_def match_shell_def split: option.splits prod.splits)

theorem non_get_passes_through_witness:
  "req_method post_request \<noteq> ''GET'' \<and>
   fetch_sw example_env net_down post_request shell_world = (PassThrough, shell_world) \<and>
   fetch_p1 example_env net_down post_request shell_world = (PassThrough, shell_world) \<and>
   fetch_p3 example_env net_down post_request shell_world = (PassThrough, shell_world)"
proof -
  have m: "req_method post_request \<noteq> ''GET''"
    by (simp add: post_request_def)
  from non_get_passes_through [of post_request example_env net_down shell_world] m
  show ?thesis by simp
qed

text \<open>
  C5 as stated fails in part_000: for a same-origin POST the handler calls
  \<^verbatim>\<open>respondWith\<close>, looks the request up in the caches, fetches it, and opens (here:
  creates) the dynamic partition; only the put is rejected by the Cache API.
\<close>

theorem post_intercepted_by_part_000:
  "req_method post_request \<noteq> ''GET'' \<and>
   fetch_p0 example_env (net_always (page 200 ''basic'' ''saved'')) post_request empty_world =
     (Respond (page 200 ''basic'' ''saved''),
      \<lparr>store = [(DYNAMIC_CACHE_p0, [])],
       trace = [CachesMatch ''https://app.example/api/save'',
                NetFetch ''https://app.example/api/save'' ''default'',
                CachesOpen DYNAMIC_CACHE_p0,
                CachePutRejected DYNAMIC_CACHE_p0 ''https://app.example/api/save''],
       fetched = 1\<rparr>)"
  by (simp add: post_request_def example_env_def empty_world_def fetch_p0_def caches_match_def
      net_fetch_def net_always_def page_def caches_open_def cache_put_def)

text \<open>
  C6, as the drafts have it: part_001 returns at once, with no \<^verbatim>\<open>respondWith\<close> and no
  host call, for a request whose URL does not start with \<^verbatim>\<open>http\<close>; it passes through
  exactly the requests that are not GET or whose URL does not start so. (No other draft
  tests the scheme.)
\<close>

theorem non_http_passes_through_part_001:
  "(\<not> prefix ''http'' (url req) \<longrightarrow> fetch_p1 e net req w = (PassThrough, w)) \<and>
   (fst (fetch_p1 e net req w) = PassThrough \<longleftrightarrow>
      req_method req \<noteq> ''GET'' \<or> \<not> prefix ''http'' (url req))"
  by (simp add: fetch_p1_def net_fetch_def caches_match_def caches_match_str_def
      split: option.splits prod.splits)

theorem non_http_passes_through_part_001_witness:
  "\<not> prefix ''http'' (url extension_request) \<and>
   fetch_p1 example_env net_down extension_request shell_world = (PassThrough, shell_world)"
proof -
  have p: "\<not> prefix ''http'' (url extension_request)"
    by (simp add: extension_request_def get_request_def)
  from non_http_passes_through_part_001 [of extension_request example_env net_down shell_world] p
  show ?thesis by simp
qed

text \<open>
  C6 as stated fails in sw.js: a GET request for a browser-extension URL is answered
  through \<^verbatim>\<open>respondWith\<close>, after a cache lookup, a fetch and the opening (here:
  creation) of the dynamic partition.
\<close>

theorem extension_request_intercepted_by_sw:
  "\<not> http_scheme (url extension_request) \<and>
   fetch_sw example_env (net_always (page 200 ''basic'' ''inject()'')) extension_request
       empty_world =
     (Respond (page 200 ''basic'' ''inject()''),
      \<lparr>store = [(DYNAMIC_CACHE_sw, [])],
       trace = [CachesMatch ''chrome-extension://abcdef/inject.js'',
                NetFetch ''chrome-extension://abcdef/inject.js'' ''default'',
                CachesOpen DYNAMIC_CACHE_sw,
                CachePutRejected DYNAMIC_CACHE_sw ''chrome-extension://abcdef/inject.js''],
       fetched = 1\<rparr>)"
  by (simp add: extension_request_def get_request_def example_env_def empty_world_def
      fetch_sw_def cache_first_def is_navigate_def header_defs caches_match_def http_scheme_def
      net_fetch_def net_always_def page_def caches_open_def cache_put_def)

text \<open>
  C7, as part_003 has it: a GET request whose host name ends in \<^verbatim>\<open>supabase.co\<close> is
  fetched once with cache mode \<^verbatim>\<open>no-store\<close> and answered with the fresh response, or
  with the empty 503 response when the fetch throws; that fetch is the only host call,
  so no partition is read, opened or written. A request to that host with another
  method is passed through.
\<close>

theorem api_host_bypasses_cache:
  assumes "suffix ''supabase.co'' (url_hostname req)"
  shows "fetch_p3 e net req w =
    (if req_method req \<noteq> ''GET'' then (PassThrough, w)
     else (Respond (case net (fetched w) of Some fresh \<Rightarrow> fresh | None \<Rightarrow> offline_response),
           w\<lparr>trace := trace w @ [NetFetch (url req) ''no-store''], fetched := Suc (fetched w)\<rparr>))"
  using assms by (simp add: fetch_p3_def net_fetch_def split: option.splits)

theorem api_host_bypasses_cache_witness:
  "suffix ''supabase.co'' (url_hostname api_get_request) \<and>
   fetch_p3 example_env net_down api_get_request shell_world =
     (Respond offline_response,
      shell_world\<lparr>trace := [NetFetch ''https://xyz.supabase.co/rest/v1/sales'' ''no-store''],
                  fetched := 1\<rparr>)"
proof -
  have s: "suffix ''supabase.co'' (url_hostname api_get_request)"
    by (simp add: api_get_request_def get_request_def suffix_to_prefix)
  have m: "req_method api_get_request = ''GET''"
    and u: "url api_get_request = ''https://xyz.supabase.co/rest/v1/sales''"
    by (simp_all add: api_get_request_def get_request_def)
  have t: "trace shell_world = []" and f: "fetched shell_world = 0"
    by (simp_all add: shell_world_def)
  from api_host_bypasses_cache [OF s, of example_env net_down shell_world] s m u t f
  show ?thesis by (simp add: net_down_def)
qed

text \<open>
  C7 as stated fails for a request to the API host that is not a GET: the handler
  returns before it reaches the bypass, so it issues no fetch with \<^verbatim>\<open>no-store\<close> (and
  a failure of the default fetch is no 503).
\<close>

theorem api_post_not_fetched_no_store:
  "suffix ''supabase.co'' (url_hostname api_post_request) \<and>
   fetch_p3 example_env net_down api_post_request empty_world = (PassThrough, empty_world)"
  by (simp add: api_post_request_def fetch_p3_def suffix_to_prefix)

text \<open>
  C10: in part_000, for a same-origin GET request that is in no partition and whose
  fetch throws, the promise given to \<^verbatim>\<open>respondWith\<close> rejects with a type error
  exactly when the request has no Accept header.
\<close>

theorem missing_accept_rejects_with_type_error:
  assumes "url_origin req = location_origin e" and "req_method req = ''GET''"
    and "storage_lookup (store w) (url req) (req_headers req) = None" and "net (fetched w) = None"
  shows "fst (fetch_p0 e net req w) = Reject TypeError \<longleftrightarrow> accept req = None"
  using assms
  by (simp add: fetch_p0_def caches_match_def net_fetch_def caches_match_str_def
      split: option.splits)

theorem missing_accept_rejects_with_type_error_witness:
  "url_origin bare_request = location_origin example_env \<and>
   req_method bare_request = ''GET'' \<and>
   storage_lookup (store shell_world) (url bare_request) (req_headers bare_request) = None \<and>
   net_down (fetched shell_world) = None \<and>
   accept bare_request = None \<and>
   fst (fetch_p0 example_env net_down bare_request shell_world) = Reject TypeError"
proof -
  have o: "url_origin bare_request = location_origin example_env"
    by (simp add: bare_request_def get_request_def example_env_def)
  have g: "req_method bare_request = ''GET''"
    by (simp add: bare_request_def get_request_def)
  have c: "storage_lookup (store shell_world) (url bare_request) (req_headers bare_request) = None"
    by (simp add: bare_request_def get_request_def shell_world_def lookup_defs page_def)
  have n: "net_down (fetched shell_world) = None"
    by (simp add: net_down_def)
  have a: "accept bare_request = None"
    by (simp add: bare_request_def get_request_def header_defs)
  from missing_accept_rejects_with_type_error
    [where req = bare_request and e = example_env and w = shell_world and net = net_down]
    o g c n a
  show ?thesis by simp
qed

section \<open>Properties of activation and of the message handler\<close>

lemma store_caches_delete: "store (caches_delete n w) = filter (\<lambda>p. fst p \<noteq> n) (store w)"
  by (simp add: caches_delete_def)

lemma store_sweep:
  "store (sweep cond names w) = filter (\<lambda>p. \<not> (fst p \<in> set names \<and> cond (fst p))) (store w)"
proof (induction names arbitrary: w)
  case Nil
  then show ?case by (simp add: sweep_def)
next
  case (Cons n names)
  have step: "sweep cond (n # names) w = sweep cond names (if cond n then caches_delete n w else w)"
    by (simp add: sweep_def)
  show ?case
    unfolding step Cons.IH
    by (auto simp: store_caches_delete intro: filter_cong)
qed

text \<open>A sweep over the names that \<^verbatim>\<open>caches.keys()\<close> has listed.\<close>

lemma store_sweep_keys:
  "store w' = store w \<Longrightarrow>
   store (sweep cond (map fst (store w)) w') = filter (\<lambda>p. \<not> cond (fst p)) (store w)"
  unfolding store_sweep by (auto intro: filter_cong)

lemma store_activate_keep:
  "store (snd (activate_keep st dyn w)) = filter (\<lambda>p. fst p = st \<or> fst p = dyn) (store w)"
  by (simp add: activate_keep_def caches_keys_def clients_claim_def store_sweep_keys)

lemma store_has_shell: "store (snd (has_shell e w)) = store w"
  by (simp add: has_shell_def cache_match_str_def split: option.splits)

lemma store_activate_p3:
  "store (snd (activate_p3 e w)) =
     (if fst (has_shell e (caches_open STATIC_CACHE_p3 w))
      then filter (\<lambda>p. fst p = STATIC_CACHE_p3 \<or> fst p = DYNAMIC_CACHE_p3)
             (store (caches_open STATIC_CACHE_p3 w))
      else store (caches_open STATIC_CACHE_p3 w))"
proof -
  obtain b w1 where h: "has_shell e (caches_open STATIC_CACHE_p3 w) = (b, w1)"
    by (cases "has_shell e (caches_open STATIC_CACHE_p3 w)")
  have s: "store w1 = store (caches_open STATIC_CACHE_p3 w)"
    using store_has_shell [of e "caches_open STATIC_CACHE_p3 w"] h by simp
  show ?thesis
    by (simp add: activate_p3_def h caches_keys_def clients_claim_def store_sweep_keys s)
qed

lemma store_activate_p1:
  "store (snd (activate_p1 w)) =
     filter (\<lambda>p. \<not> prefix ''tuba-'' (fst p) \<or> fst p = STATIC_CACHE_p1 \<or> fst p = DYNAMIC_CACHE_p1)
       (store w)"
  by (simp add: activate_p1_def caches_keys_def clients_claim_def store_sweep_keys)

text \<open>
  C3, as the drafts have it: after the activation of sw.js, part_000 and part_002 the
  partitions are exactly the earlier ones that bear one of the two current names, with
  their contents: every other partition is deleted and no current one is. part_003
  first opens (creates) its static partition and then does the same when its
  shell-presence guard passes. part_001 deletes, among the partitions that are not
  current, only those whose name starts with \<^verbatim>\<open>tuba-\<close>.
\<close>

theorem activation_keeps_current_partitions:
  "store (snd (activate_sw w)) =
     filter (\<lambda>p. fst p = STATIC_CACHE_sw \<or> fst p = DYNAMIC_CACHE_sw) (store w) \<and>
   store (snd (activate_p0 w)) =
     filter (\<lambda>p. fst p = STATIC_CACHE_p0 \<or> fst p = DYNAMIC_CACHE_p0) (store w) \<and>
   store (snd (activate_p2 w)) =
     filter (\<lambda>p. fst p = CACHE_NAME_p2 \<or> fst p = RUNTIME_CACHE_p2) (store w) \<and>
   (fst (has_shell e (caches_open STATIC_CACHE_p3 w)) \<longrightarrow>
      store (snd (activate_p3 e w)) =
        filter (\<lambda>p. fst p = STATIC_CACHE_p3 \<or> fst p = DYNAMIC_CACHE_p3)
          (store (caches_open STATIC_CACHE_p3 w))) \<and>
   store (snd (activate_p1 w)) =
     filter (\<lambda>p. \<not> prefix ''tuba-'' (fst p) \<or> fst p = STATIC_CACHE_p1 \<or> fst p = DYNAMIC_CACHE_p1)
       (store w)"
  by (simp add: activate_sw_def activate_p0_def activate_p2_def store_activate_keep
      store_activate_p3 store_activate_p1)

theorem activation_keeps_current_partitions_witness:
  "fst (has_shell example_env (caches_open STATIC_CACHE_p3 stale_world_p3)) \<and>
   store (snd (activate_p3 example_env stale_world_p3)) =
     [(STATIC_CACHE_p3,
       [(''https://app.example/index.html'', [], page 200 ''basic'' ''<html>shell</html>'')])] \<and>
   store (snd (activate_sw stale_world_p3)) = [(''tuba-static-v1.1'', [])]"
proof -
  have h: "fst (has_shell example_env (caches_open STATIC_CACHE_p3 stale_world_p3))"
    by (simp add: has_shell_def cache_match_str_def partition_lookup_def caches_open_def
        lookup_defs page_def
        stale_world_p3_def STATIC_CACHE_p3_def example_env_def example_resolve_def)
  have s: "store (caches_open STATIC_CACHE_p3 stale_world_p3) = store stale_world_p3"
    by (simp add: caches_open_def stale_world_p3_def STATIC_CACHE_p3_def)
  from activation_keeps_current_partitions [of stale_world_p3 example_env] h s
  show ?thesis
    by (simp add: stale_world_p3_def STATIC_CACHE_p3_def DYNAMIC_CACHE_p3_def
        STATIC_CACHE_sw_def DYNAMIC_CACHE_sw_def)
qed

text \<open>
  C3 as stated fails in part_001: a partition whose name differs from both current
  names and does not start with \<^verbatim>\<open>tuba-\<close> is still there after the activation.
\<close>

theorem foreign_partition_survives_part_001:
  "''workbox-precache-v2'' \<noteq> STATIC_CACHE_p1 \<and> ''workbox-precache-v2'' \<noteq> DYNAMIC_CACHE_p1 \<and>
   map fst (store stale_world_p1) = [''tuba-static-v1.0'', ''workbox-precache-v2'', STATIC_CACHE_p1] \<and>
   map fst (store (snd (activate_p1 stale_world_p1))) = [''workbox-precache-v2'', STATIC_CACHE_p1]"
  by (simp add: store_activate_p1 stale_world_p1_def STATIC_CACHE_p1_def DYNAMIC_CACHE_p1_def)

text \<open>
  C9: in part_001 a message of type \<^verbatim>\<open>CLEAR_CACHE\<close> leaves exactly the partitions
  whose name does not start with \<^verbatim>\<open>tuba-\<close>, with their contents; any other message
  leaves the partitions as they are, and a message of neither recognised type leaves
  the whole world as it is.
\<close>

theorem clear_cache_deletes_prefixed_partitions:
  "(has_type d ''CLEAR_CACHE'' \<longrightarrow>
      store (message_p1 d w) = filter (\<lambda>p. \<not> prefix ''tuba-'' (fst p)) (store w)) \<and>
   (\<not> has_type d ''CLEAR_CACHE'' \<longrightarrow> store (message_p1 d w) = store w) \<and>
   (\<not> has_type d ''CLEAR_CACHE'' \<and> \<not> has_type d ''SKIP_WAITING'' \<longrightarrow> message_p1 d w = w)"
  by (simp add: message_p1_def caches_keys_def skipWaiting_def store_sweep_keys Let_def)

theorem clear_cache_deletes_prefixed_partitions_witness:
  "has_type (Some (Some ''CLEAR_CACHE'')) ''CLEAR_CACHE'' \<and>
   store (message_p1 (Some (Some ''CLEAR_CACHE'')) stale_world_p1) = [(''workbox-precache-v2'', [])] \<and>
   \<not> has_type (Some (Some ''PING'')) ''CLEAR_CACHE'' \<and>
   \<not> has_type (Some (Some ''PING'')) ''SKIP_WAITING'' \<and>
   message_p1 (Some (Some ''PING'')) stale_world_p1 = stale_world_p1"
proof -
  have c: "has_type (Some (Some ''CLEAR_CACHE'')) ''CLEAR_CACHE''"
    by (simp add: has_type_def)
  have p: "\<not> has_type (Some (Some ''PING'')) ''CLEAR_CACHE''"
    and q: "\<not> has_type (Some (Some ''PING'')) ''SKIP_WAITING''"
    by (simp_all add: has_type_def)
  from clear_cache_deletes_prefixed_partitions [of "Some (Some ''CLEAR_CACHE'')" stale_world_p1]
    clear_cache_deletes_prefixed_partitions [of "Some (Some ''PING'')" stale_world_p1] c p q
  show ?thesis by (simp add: stale_world_p1_def STATIC_CACHE_p1_def)
qed

section \<open>Cache misses\<close>

lemma find_after_filter:
  "(\<And>x. x \<in> set xs \<Longrightarrow> P x \<Longrightarrow> R x) \<Longrightarrow>
   find P (filter R xs @ ys) = (case find P xs of None \<Rightarrow> find P ys | Some x \<Rightarrow> Some x)"
  by (induction xs) auto

lemma find_after_removal: "find P (filter (\<lambda>x. \<not> P x) xs @ ys) = find P ys"
  by (induction xs) auto

text \<open>An entry matches the request it was stored under, unless it varies on everything.\<close>

lemma entry_matches_self: "''*'' \<notin> set (vary_fields r) \<Longrightarrow> entry_matches u hs (u, hs, r)"
  by (auto simp: entry_matches_def list_all_iff)

lemma cache_lookup_put_entry:
  "''*'' \<notin> set (vary_fields r) \<Longrightarrow> cache_lookup (put_entry u hs r c) u hs = Some r"
  by (simp add: cache_lookup_def put_entry_def find_after_removal entry_matches_self)

text \<open>A put under another URL leaves a lookup as it was.\<close>

lemma cache_lookup_put_other:
  assumes "strip_fragment u' \<noteq> strip_fragment u"
  shows "cache_lookup (put_entry u' hs' r' c) u hs = cache_lookup c u hs"
proof -
  have keep: "\<And>en. en \<in> set c \<Longrightarrow> entry_matches u hs en \<Longrightarrow> \<not> entry_matches u' hs' en"
    using assms by (auto simp: entry_matches_def)
  have new: "\<not> entry_matches u hs (u', hs', r')"
    using assms by (simp add: entry_matches_def)
  show ?thesis
    unfolding cache_lookup_def put_entry_def
    using find_after_filter [of c "entry_matches u hs" "\<lambda>en. \<not> entry_matches u' hs' en"
        "[(u', hs', r')]"] keep new
    by (simp split: option.splits)
qed

lemma partition_lookup_put:
  "name \<in> fst ` set st \<Longrightarrow> ''*'' \<notin> set (vary_fields r) \<Longrightarrow>
   partition_lookup
     (map (\<lambda>(n, c). if n = name then (n, put_entry u hs r c) else (n, c)) st) name u hs = Some r"
  by (induction st) (auto simp: partition_lookup_def cache_lookup_put_entry)

lemma partition_lookup_put_other:
  "strip_fragment u' \<noteq> strip_fragment u \<Longrightarrow>
   partition_lookup
     (map (\<lambda>(n, c). if n = name' then (n, put_entry u' hs' r' c) else (n, c)) st) name u hs =
   partition_lookup st name u hs"
proof (induction st)
  case Nil
  then show ?case by (simp add: partition_lookup_def)
next
  case (Cons p st)
  obtain n c where p: "p = (n, c)" by (cases p)
  have ih: "partition_lookup
              (map (\<lambda>(n, c). if n = name' then (n, put_entry u' hs' r' c) else (n, c)) st)
              name u hs = partition_lookup st name u hs"
    using Cons.IH [OF Cons.prems] .
  show ?case
  proof (cases "n = name")
    case True
    then show ?thesis
      by (simp add: partition_lookup_def p cache_lookup_put_other [OF Cons.prems])
  next
    case False
    then show ?thesis
      using ih by (auto simp: partition_lookup_def p)
  qed
qed

lemma open_has_partition: "name \<in> fst ` set (store (caches_open name w))"
  by (auto simp: caches_open_def)

lemma store_put_open:
  "http_scheme u \<Longrightarrow> status r \<noteq> 206 \<Longrightarrow> ''*'' \<notin> set (vary_fields r) \<Longrightarrow>
   partition_lookup (store (cache_put name ''GET'' u hs r (caches_open name w))) name u hs = Some r"
  using partition_lookup_put [OF open_has_partition [of name w], of r u hs]
  by (simp add: cache_put_def)

lemma cache_first_miss:
  assumes "req_method req = ''GET''"
    and "storage_lookup (store w) (url req) (req_headers req) = None"
    and "net (fetched w) = Some r"
  shows "cache_first dyn e net req w =
    (Respond r,
     (let w2 = w\<lparr>trace := trace w @ [CachesMatch (url req), NetFetch (url req) ''default''],
                  fetched := Suc (fetched w)\<rparr>
      in if status r = 200 \<or> rtype r \<in> {''basic'', ''cors'', ''opaque''}
         then cache_put dyn ''GET'' (url req) (req_headers req) r (caches_open dyn w2) else w2))"
  using assms
  by (simp add: cache_first_def caches_match_def net_fetch_def Let_def)

lemma fetched_miss_world:
  "NetFetch u ''default'' \<in> set (trace (cache_put dyn m u hs r (caches_open dyn
       (w\<lparr>trace := trace w @ [CachesMatch u, NetFetch u ''default''], fetched := Suc (fetched w)\<rparr>))))"
  by (simp add: cache_put_def caches_open_def)

text \<open>
  C2, as the drafts have it: on a cache miss of a GET request that the cache-first part
  handles, the handler fetches and answers with the network response. sw.js and part_003
  store it in the dynamic partition when its status is 200 or its type is \<^verbatim>\<open>cors\<close> or
  \<^verbatim>\<open>opaque\<close>, and the Cache API accepts the put (the URL is HTTP(S), the status is not
  206 and no field value of the Vary header is \<^verbatim>\<open>*\<close>); they store nothing when the
  status is not 200 and the type is none of \<^verbatim>\<open>basic\<close>, \<^verbatim>\<open>cors\<close>, \<^verbatim>\<open>opaque\<close>. part_000
  stores it when the status is 200, the type is \<^verbatim>\<open>basic\<close> and the Cache API accepts the
  put, and stores nothing when the status is not 200 or the type is not \<^verbatim>\<open>basic\<close>.
\<close>

theorem miss_fetches_and_stores:
  assumes "req_method req = ''GET''"
    and "storage_lookup (store w) (url req) (req_headers req) = None"
    and "net (fetched w) = Some r"
  shows
   "(\<not> is_navigate req \<longrightarrow>
       fst (fetch_sw e net req w) = Respond r \<and>
       NetFetch (url req) ''default'' \<in> set (trace (snd (fetch_sw e net req w))) \<and>
       ((status r = 200 \<or> rtype r = ''cors'' \<or> rtype r = ''opaque'') \<and>
        http_scheme (url req) \<and> status r \<noteq> 206 \<and> ''*'' \<notin> set (vary_fields r) \<longrightarrow>
          partition_lookup (store (snd (fetch_sw e net req w))) DYNAMIC_CACHE_sw
            (url req) (req_headers req) = Some r) \<and>
       (status r \<noteq> 200 \<and> rtype r \<notin> {''basic'', ''cors'', ''opaque''} \<longrightarrow>
          store (snd (fetch_sw e net req w)) = store w)) \<and>
    (\<not> is_navigate req \<and> \<not> suffix ''supabase.co'' (url_hostname req) \<longrightarrow>
       fst (fetch_p3 e net req w) = Respond r \<and>
       NetFetch (url req) ''default'' \<in> set (trace (snd (fetch_p3 e net req w))) \<and>
       ((status r = 200 \<or> rtype r = ''cors'' \<or> rtype r = ''opaque'') \<and>
        http_scheme (url req) \<and> status r \<noteq> 206 \<and> ''*'' \<notin> set (vary_fields r) \<longrightarrow>
          partition_lookup (store (snd (fetch_p3 e net req w))) DYNAMIC_CACHE_p3
            (url req) (req_headers req) = Some r) \<and>
       (status r \<noteq> 200 \<and> rtype r \<notin> {''basic'', ''cors'', ''opaque''} \<longrightarrow>
          store (snd (fetch_p3 e net req w)) = store w)) \<and>
    (url_origin req = location_origin e \<longrightarrow>
       fst (fetch_p0 e net req w) = Respond r \<and>
       NetFetch (url req) ''default'' \<in> set (trace (snd (fetch_p0 e net req w))) \<and>
       (status r = 200 \<and> rtype r = ''basic'' \<and> http_scheme (url req) \<and>
        ''*'' \<notin> set (vary_fields r) \<longrightarrow>
          partition_lookup (store (snd (fetch_p0 e net req w))) DYNAMIC_CACHE_p0
            (url req) (req_headers req) = Some r) \<and>
       (status r \<noteq> 200 \<or> rtype r \<noteq> ''basic'' \<longrightarrow>
          store (snd (fetch_p0 e net req w)) = store w))"
proof -
  have sw: "\<not> is_navigate req \<Longrightarrow> fetch_sw e net req w = cache_first DYNAMIC_CACHE_sw e net req w"
    using assms(1) by (simp add: fetch_sw_def)
  have p3: "\<not> is_navigate req \<Longrightarrow> \<not> suffix ''supabase.co'' (url_hostname req) \<Longrightarrow>
            fetch_p3 e net req w = cache_first DYNAMIC_CACHE_p3 e net req w"
    using assms(1) by (simp add: fetch_p3_def)
  have cf: "fst (cache_first dyn e net req w) = Respond r \<and>
       NetFetch (url req) ''default'' \<in> set (trace (snd (cache_first dyn e net req w))) \<and>
       ((status r = 200 \<or> rtype r = ''cors'' \<or> rtype r = ''opaque'') \<and>
        http_scheme (url req) \<and> status r \<noteq> 206 \<and> ''*'' \<notin> set (vary_fields r) \<longrightarrow>
          partition_lookup (store (snd (cache_first dyn e net req w))) dyn
            (url req) (req_headers req) = Some r) \<and>
       (status r \<noteq> 200 \<and> rtype r \<notin> {''basic'', ''cors'', ''opaque''} \<longrightarrow>
          store (snd (cache_first dyn e net req w)) = store w)" for dyn
    unfolding cache_first_miss [where net = net and r = r, OF assms]
    by (simp add: Let_def store_put_open fetched_miss_world)
  have p0: "url_origin req = location_origin e \<Longrightarrow>
       fetch_p0 e net req w =
         (Respond r,
          (let w2 = w\<lparr>trace := trace w @ [CachesMatch (url req), NetFetch (url req) ''default''],
                       fetched := Suc (fetched w)\<rparr>
           in if status r \<noteq> 200 \<or> rtype r \<noteq> ''basic'' then w2
              else cache_put DYNAMIC_CACHE_p0 ''GET'' (url req) (req_headers req) r
                     (caches_open DYNAMIC_CACHE_p0 w2)))"
    using assms by (simp add: fetch_p0_def caches_match_def net_fetch_def Let_def)
  have p0': "url_origin req = location_origin e \<Longrightarrow>
       fst (fetch_p0 e net req w) = Respond r \<and>
       NetFetch (url req) ''default'' \<in> set (trace (snd (fetch_p0 e net req w))) \<and>
       (status r = 200 \<and> rtype r = ''basic'' \<and> http_scheme (url req) \<and>
        ''*'' \<notin> set (vary_fields r) \<longrightarrow>
          partition_lookup (store (snd (fetch_p0 e net req w))) DYNAMIC_CACHE_p0
            (url req) (req_headers req) = Some r) \<and>
       (status r \<noteq> 200 \<or> rtype r \<noteq> ''basic'' \<longrightarrow>
          store (snd (fetch_p0 e net req w)) = store w)"
    unfolding p0 by (simp add: Let_def store_put_open fetched_miss_world)
  show ?thesis
    using sw p3 cf [of DYNAMIC_CACHE_sw] cf [of DYNAMIC_CACHE_p3] p0' by simp
qed

theorem miss_fetches_and_stores_witness:
  "req_method bare_request = ''GET'' \<and>
   storage_lookup (store shell_world) (url bare_request) (req_headers bare_request) = None \<and>
   net_always (page 200 ''basic'' ''{}'') (fetched shell_world) = Some (page 200 ''basic'' ''{}'') \<and>
   \<not> is_navigate bare_request \<and>
   \<not> suffix ''supabase.co'' (url_hostname bare_request) \<and>
   url_origin bare_request = location_origin example_env \<and>
   http_scheme (url bare_request) \<and>
   status (page 200 ''basic'' ''{}'') = 200 \<and> rtype (page 200 ''basic'' ''{}'') = ''basic'' \<and>
   ''*'' \<notin> set (vary_fields (page 200 ''basic'' ''{}'')) \<and>
   fst (fetch_sw example_env (net_always (page 200 ''basic'' ''{}'')) bare_request shell_world) =
     Respond (page 200 ''basic'' ''{}'') \<and>
   partition_lookup
     (store (snd (fetch_sw example_env (net_always (page 200 ''basic'' ''{}'')) bare_request
               shell_world)))
     DYNAMIC_CACHE_sw (url bare_request) (req_headers bare_request) =
     Some (page 200 ''basic'' ''{}'') \<and>
   partition_lookup
     (store (snd (fetch_p0 example_env (net_always (page 200 ''basic'' ''{}'')) bare_request
               shell_world)))
     DYNAMIC_CACHE_p0 (url bare_request) (req_headers bare_request) =
     Some (page 200 ''basic'' ''{}'')"
proof -
  have g: "req_method bare_request = ''GET''"
    by (simp add: bare_request_def get_request_def)
  have c: "storage_lookup (store shell_world) (url bare_request) (req_headers bare_request) = None"
    by (simp add: bare_request_def get_request_def shell_world_def lookup_defs page_def)
  have n: "net_always (page 200 ''basic'' ''{}'') (fetched shell_world) =
             Some (page 200 ''basic'' ''{}'')"
    by (simp add: net_always_def)
  have v: "\<not> is_navigate bare_request"
    by (simp add: bare_request_def get_request_def is_navigate_def header_defs)
  have s: "\<not> suffix ''supabase.co'' (url_hostname bare_request)"
    by (simp add: bare_request_def get_request_def suffix_to_prefix)
  have o: "url_origin bare_request = location_origin example_env"
    by (simp add: bare_request_def get_request_def example_env_def)
  have h: "http_scheme (url bare_request)"
    by (simp add: bare_request_def get_request_def http_scheme_def)
  have r: "status (page 200 ''basic'' ''{}'') = 200" "rtype (page 200 ''basic'' ''{}'') = ''basic''"
    by (simp_all add: page_def)
  have y: "''*'' \<notin> set (vary_fields (page 200 ''basic'' ''{}''))"
    by (simp add: vary_fields_def header_get_def page_def)
  from miss_fetches_and_stores
    [where net = "net_always (page 200 ''basic'' ''{}'')" and r = "page 200 ''basic'' ''{}''"
       and e = example_env, OF g c n]
    g c n v s o h r y
  show ?thesis by simp
qed

text \<open>
  C2 as stated fails in sw.js: an opaque response, whose status is 0 and not 200, is
  stored in the dynamic partition.
\<close>

theorem opaque_response_stored_by_sw:
  "req_method cdn_request = ''GET'' \<and>
   storage_lookup (store empty_world) (url cdn_request) (req_headers cdn_request) = None \<and>
   status (page 0 ''opaque'' '''') \<noteq> 200 \<and>
   fetch_sw example_env (net_always (page 0 ''opaque'' '''')) cdn_request empty_world =
     (Respond (page 0 ''opaque'' ''''),
      \<lparr>store = [(DYNAMIC_CACHE_sw,
                 [(''https://cdn.example/lib.js'', [(''accept'', ''*/*'')], page 0 ''opaque'' '''')])],
       trace = [CachesMatch ''https://cdn.example/lib.js'',
                NetFetch ''https://cdn.example/lib.js'' ''default'',
                CachesOpen DYNAMIC_CACHE_sw,
                CachePut DYNAMIC_CACHE_sw ''https://cdn.example/lib.js''],
       fetched = 1\<rparr>)"
  by (simp add: cdn_request_def get_request_def example_env_def empty_world_def
      fetch_sw_def cache_first_def is_navigate_def header_defs caches_match_def http_scheme_def
      net_fetch_def net_always_def page_def caches_open_def cache_put_def put_entry_def
      vary_fields_def)

section \<open>Network failure\<close>






section \<open>Properties of installation\<close>

lemma fetch_each_result:
  "fetch_each net m us w =
     (map (\<lambda>i. net (fetched w + i)) [0..<length us],
      w\<lparr>trace := trace w @ map (\<lambda>u. NetFetch u m) us, fetched := fetched w + length us\<rparr>)"
proof (induction us arbitrary: w)
  case Nil
  then show ?case by simp
next
  case (Cons u us)
  show ?case
    by (simp add: net_fetch_def Cons.IH map_upt_Suc del: upt_Suc)
qed

lemma count_skip_fetches:
  "count_list (map (\<lambda>u. NetFetch (f u) m) us) SkipWaiting = 0"
  by (induction us) simp_all

lemma count_skip_cache_put:
  "count_list (trace (cache_put name m u hs r w)) SkipWaiting = count_list (trace w) SkipWaiting"
  by (simp add: cache_put_def)

lemma count_skip_put_each:
  "count_list (trace (put_each name xs w)) SkipWaiting = count_list (trace w) SkipWaiting"
  by (induction name xs w rule: put_each.induct) (simp_all add: count_skip_cache_put)

text \<open>An asset that cannot be added makes \<^verbatim>\<open>addAll\<close> reject and leave the world as the
  fetches left it: nothing is stored.\<close>

lemma cache_addAll_failure:
  assumes "i < length urls" and "\<not> addable (net (fetched w + i))"
  shows "fst (cache_addAll e net name m urls w) = False"
    and "store (snd (cache_addAll e net name m urls w)) = store w"
    and "count_list (trace (snd (cache_addAll e net name m urls w))) SkipWaiting =
         count_list (trace w) SkipWaiting"
proof -
  have "\<not> list_all addable (map (\<lambda>i. net (fetched w + i)) [0..<length urls])"
    using assms by (auto simp: list_all_iff)
  then show "fst (cache_addAll e net name m urls w) = False"
    and "store (snd (cache_addAll e net name m urls w)) = store w"
    and "count_list (trace (snd (cache_addAll e net name m urls w))) SkipWaiting =
         count_list (trace w) SkipWaiting"
    by (simp_all add: cache_addAll_def fetch_each_result comp_def count_skip_fetches)
qed

lemma install_addAll_failure:
  assumes "i < length assets" and "\<not> addable (net (fetched w + i))"
  shows "fst (install_addAll st m assets e net w) = Fulfilled \<and>
         store (snd (install_addAll st m assets e net w)) = store (caches_open st w) \<and>
         count_list (trace (snd (install_addAll st m assets e net w))) SkipWaiting =
           count_list (trace w) SkipWaiting"
proof -
  have f: "fetched (caches_open st w) = fetched w"
    and t: "count_list (trace (caches_open st w)) SkipWaiting = count_list (trace w) SkipWaiting"
    by (simp_all add: caches_open_def)
  obtain b w1 where r: "cache_addAll e net st m assets (caches_open st w) = (b, w1)"
    by (cases "cache_addAll e net st m assets (caches_open st w)")
  have "b = False" and "store w1 = store (caches_open st w)"
    and "count_list (trace w1) SkipWaiting = count_list (trace w) SkipWaiting"
    using cache_addAll_failure [of i assets net "caches_open st w" e st m] assms f t r
    by simp_all
  then show ?thesis
    by (simp add: install_addAll_def r)
qed

lemma fetched_cache_put: "fetched (cache_put name m u hs r w) = fetched w"
  by (simp add: cache_put_def)

lemma names_cache_put: "fst ` set (store (cache_put name m u hs r w)) = fst ` set (store w)"
  by (force simp: cache_put_def image_iff split: if_splits)

lemma lookup_same_cache_put:
  "strip_fragment u' \<noteq> strip_fragment u \<Longrightarrow>
   partition_lookup (store (cache_put name' m u' hs' r' w)) name u hs =
   partition_lookup (store w) name u hs"
  by (simp add: cache_put_def partition_lookup_put_other)

text \<open>One \<^verbatim>\<open>cache.add\<close>, in closed form.\<close>

lemma cache_add_result:
  "snd (cache_add e net name u w) =
     (if \<not> http_scheme (resolve e u) then w
      else
        (let w1 = w\<lparr>trace := trace w @ [NetFetch (resolve e u) ''default''],
                     fetched := Suc (fetched w)\<rparr>
         in case net (fetched w) of
              None \<Rightarrow> w1
            | Some r \<Rightarrow>
                if addable (Some r) then cache_put name ''GET'' (resolve e u) [] r w1 else w1))"
  by (simp add: cache_add_def cache_addAll_def net_fetch_def Let_def addable_def
      split: option.splits)

lemma fetched_cache_add:
  "http_scheme (resolve e u) \<Longrightarrow> fetched (snd (cache_add e net name u w)) = Suc (fetched w)"
  by (simp add: cache_add_result Let_def fetched_cache_put split: option.splits)

lemma count_skip_cache_add:
  "count_list (trace (snd (cache_add e net name u w))) SkipWaiting = count_list (trace w) SkipWaiting"
  by (simp add: cache_add_result Let_def count_skip_cache_put split: option.splits)

lemma names_cache_add:
  "fst ` set (store (snd (cache_add e net name u w))) = fst ` set (store w)"
  by (simp add: cache_add_result Let_def names_cache_put split: option.splits)

text \<open>An add of another URL leaves a lookup as it was.\<close>

lemma lookup_same_cache_add:
  assumes "strip_fragment (resolve e u') \<noteq> strip_fragment u"
  shows "partition_lookup (store (snd (cache_add e net name' u' w))) name u hs =
         partition_lookup (store w) name u hs"
proof -
  have "partition_lookup
          (store (cache_put name' ''GET'' (resolve e u') [] r (w\<lparr>trace := t, fetched := n\<rparr>)))
          name u hs = partition_lookup (store w) name u hs" for r t n
    using lookup_same_cache_put [OF assms, of name' "''GET''" "[]" r "w\<lparr>trace := t, fetched := n\<rparr>"
        name hs]
    by simp
  then show ?thesis
    by (simp add: cache_add_result Let_def split: option.splits)
qed

text \<open>An add that succeeds leaves the fetched response under the URL.\<close>

lemma lookup_after_cache_add:
  assumes "http_scheme (resolve e u)" and "addable (net (fetched w))"
    and "name \<in> fst ` set (store w)"
  shows "partition_lookup (store (snd (cache_add e net name u w))) name (resolve e u) [] =
         net (fetched w)"
proof -
  obtain r where r: "net (fetched w) = Some r" and s: "status r \<noteq> 206"
    and v: "''*'' \<notin> set (vary_fields r)"
    using assms(2) by (auto simp: addable_def split: option.splits)
  have "partition_lookup
          (map (\<lambda>(n, c). if n = name then (n, put_entry (resolve e u) [] r c) else (n, c))
             (store w))
          name (resolve e u) [] = Some r"
    using partition_lookup_put [OF assms(3) v] .
  then show ?thesis
    using assms(1,2) r s v by (simp add: cache_add_result cache_put_def)
qed

lemma count_skip_add_each:
  "count_list (trace (add_each e net name us w)) SkipWaiting = count_list (trace w) SkipWaiting"
  by (induction us arbitrary: w) (simp_all add: count_skip_cache_add)

lemma lookup_same_add_each:
  "strip_fragment u \<notin> (\<lambda>u'. strip_fragment (resolve e u')) ` set us \<Longrightarrow>
   partition_lookup (store (add_each e net name' us w)) name u hs =
   partition_lookup (store w) name u hs"
proof (induction us arbitrary: w)
  case Nil
  then show ?case by simp
next
  case (Cons u' us)
  have d: "strip_fragment (resolve e u') \<noteq> strip_fragment u"
    and rest: "strip_fragment u \<notin> (\<lambda>u'. strip_fragment (resolve e u')) ` set us"
    using Cons.prems by auto
  show ?case
    using Cons.IH [OF rest, of "snd (cache_add e net name' u' w)"] lookup_same_cache_add [OF d]
    by simp
qed

text \<open>Every asset that can be added is in the partition afterwards, with the response
  that its own fetch gave, whatever happens to the other assets.\<close>

lemma add_each_stores:
  assumes "list_all (\<lambda>u. http_scheme (resolve e u)) us"
    and "distinct (map (\<lambda>u. strip_fragment (resolve e u)) us)"
    and "name \<in> fst ` set (store w)"
    and "i < length us" and "addable (net (fetched w + i))"
  shows "partition_lookup (store (add_each e net name us w)) name (resolve e (us ! i)) [] =
         net (fetched w + i)"
  using assms
proof (induction us arbitrary: w i)
  case Nil
  then show ?case by simp
next
  case (Cons u us)
  have h: "http_scheme (resolve e u)" and hs: "list_all (\<lambda>u. http_scheme (resolve e u)) us"
    using Cons.prems(1) by simp_all
  have fresh: "strip_fragment (resolve e u) \<notin> (\<lambda>u'. strip_fragment (resolve e u')) ` set us"
    and ds: "distinct (map (\<lambda>u. strip_fragment (resolve e u)) us)"
    using Cons.prems(2) by auto
  let ?w1 = "snd (cache_add e net name u w)"
  have n1: "name \<in> fst ` set (store ?w1)"
    using Cons.prems(3) by (simp add: names_cache_add)
  show ?case
  proof (cases i)
    case 0
    have "partition_lookup (store ?w1) name (resolve e u) [] = net (fetched w)"
      using lookup_after_cache_add [OF h _ Cons.prems(3)] Cons.prems(5) 0 by simp
    then show ?thesis
      using 0 lookup_same_add_each [OF fresh, of net name ?w1 name "[]"] by simp
  next
    case (Suc j)
    have "addable (net (fetched ?w1 + j))"
      using Cons.prems(5) Suc by (simp add: fetched_cache_add [OF h])
    then have "partition_lookup (store (add_each e net name us ?w1)) name (resolve e (us ! j)) [] =
               net (fetched ?w1 + j)"
      using Cons.IH [OF hs ds n1, of j] Cons.prems(4) Suc by simp
    then show ?thesis
      using Suc by (simp add: fetched_cache_add [OF h])
  qed
qed

lemma install_each_result:
  "fst (install_each st assets e net w) = Fulfilled \<and>
   count_list (trace (snd (install_each st assets e net w))) SkipWaiting =
     Suc (count_list (trace w) SkipWaiting)"
  by (simp add: install_each_def skipWaiting_def count_skip_add_each caches_open_def)

lemma install_each_stores:
  assumes "list_all (\<lambda>u. http_scheme (resolve e u)) assets"
    and "distinct (map (\<lambda>u. strip_fragment (resolve e u)) assets)"
    and "i < length assets" and "addable (net (fetched w + i))"
  shows "partition_lookup (store (snd (install_each st assets e net w))) st
           (resolve e (assets ! i)) [] = net (fetched w + i)"
proof -
  have f: "fetched (caches_open st w) = fetched w"
    by (simp add: caches_open_def)
  have "partition_lookup (store (add_each e net st assets (caches_open st w))) st
          (resolve e (assets ! i)) [] = net (fetched (caches_open st w) + i)"
    using add_each_stores [OF assms(1,2) open_has_partition assms(3), of net st w] assms(4) f
    by simp
  then show ?thesis
    by (simp add: install_each_def skipWaiting_def f)
qed

text \<open>
  C8, as the drafts have it. In the drafts that add the whole asset list at once (sw.js,
  part_000, part_002), when an asset cannot be added (its fetch throws, its response is
  not ok or is partial, or a field value of its Vary header is \<^verbatim>\<open>*\<close>) nothing is stored
  in the static partition and \<^verbatim>\<open>skipWaiting\<close> is not called; the error is caught and
  logged, so the promise given to \<^verbatim>\<open>waitUntil\<close> still fulfils. In the drafts that add
  the assets one by one (part_001, part_003) the promise fulfils and \<^verbatim>\<open>skipWaiting\<close> is
  called whatever the network does; when the asset URLs are HTTP(S) and differ from one
  another, every asset that can be added is in the static partition afterwards, with
  the response that its own fetch gave.
\<close>

theorem install_failure_policy:
  "(i < length (STATIC_ASSETS_sw e) \<and> \<not> addable (net (fetched w + i)) \<longrightarrow>
      fst (install_sw e net w) = Fulfilled \<and>
      store (snd (install_sw e net w)) = store (caches_open STATIC_CACHE_sw w) \<and>
      count_list (trace (snd (install_sw e net w))) SkipWaiting =
        count_list (trace w) SkipWaiting) \<and>
   (i < length STATIC_ASSETS_p0 \<and> \<not> addable (net (fetched w + i)) \<longrightarrow>
      fst (install_p0 e net w) = Fulfilled \<and>
      store (snd (install_p0 e net w)) = store (caches_open STATIC_CACHE_p0 w) \<and>
      count_list (trace (snd (install_p0 e net w))) SkipWaiting =
        count_list (trace w) SkipWaiting) \<and>
   (i < length urlsToCache \<and> \<not> addable (net (fetched w + i)) \<longrightarrow>
      fst (install_p2 e net w) = Fulfilled \<and>
      store (snd (install_p2 e net w)) = store (caches_open CACHE_NAME_p2 w) \<and>
      count_list (trace (snd (install_p2 e net w))) SkipWaiting =
        count_list (trace w) SkipWaiting) \<and>
   fst (install_p1 e net w) = Fulfilled \<and>
   count_list (trace (snd (install_p1 e net w))) SkipWaiting =
     Suc (count_list (trace w) SkipWaiting) \<and>
   (list_all (\<lambda>u. http_scheme (resolve e u)) STATIC_ASSETS_p1 \<and>
    distinct (map (\<lambda>u. strip_fragment (resolve e u)) STATIC_ASSETS_p1) \<and>
    i < length STATIC_ASSETS_p1 \<and> addable (net (fetched w + i)) \<longrightarrow>
      partition_lookup (store (snd (install_p1 e net w))) STATIC_CACHE_p1
        (resolve e (STATIC_ASSETS_p1 ! i)) [] = net (fetched w + i)) \<and>
   fst (install_p3 e net w) = Fulfilled \<and>
   count_list (trace (snd (install_p3 e net w))) SkipWaiting =
     Suc (count_list (trace w) SkipWaiting) \<and>
   (list_all (\<lambda>u. http_scheme (resolve e u)) (STATIC_ASSETS_p3 e) \<and>
    distinct (map (\<lambda>u. strip_fragment (resolve e u)) (STATIC_ASSETS_p3 e)) \<and>
    i < length (STATIC_ASSETS_p3 e) \<and> addable (net (fetched w + i)) \<longrightarrow>
      partition_lookup (store (snd (install_p3 e net w))) STATIC_CACHE_p3
        (resolve e (STATIC_ASSETS_p3 e ! i)) [] = net (fetched w + i))"
proof -
  have all: "i < length assets \<and> \<not> addable (net (fetched w + i)) \<longrightarrow>
      fst (install_addAll st m assets e net w) = Fulfilled \<and>
      store (snd (install_addAll st m assets e net w)) = store (caches_open st w) \<and>
      count_list (trace (snd (install_addAll st m assets e net w))) SkipWaiting =
        count_list (trace w) SkipWaiting" for st m assets
    using install_addAll_failure [of i assets net w st m e] by blast
  have each: "list_all (\<lambda>u. http_scheme (resolve e u)) assets \<and>
      distinct (map (\<lambda>u. strip_fragment (resolve e u)) assets) \<and>
      i < length assets \<and> addable (net (fetched w + i)) \<longrightarrow>
      partition_lookup (store (snd (install_each st assets e net w))) st
        (resolve e (assets ! i)) [] = net (fetched w + i)" for st assets
    using install_each_stores [of e assets i net w st] by blast
  show ?thesis
    unfolding install_sw_def install_p0_def install_p2_def install_p1_def install_p3_def
    using all [of "STATIC_ASSETS_sw e" STATIC_CACHE_sw "''default''"]
      all [of STATIC_ASSETS_p0 STATIC_CACHE_p0 "''default''"]
      all [of urlsToCache CACHE_NAME_p2 "''reload''"]
      each [of STATIC_ASSETS_p1 STATIC_CACHE_p1] each [of "STATIC_ASSETS_p3 e" STATIC_CACHE_p3]
      install_each_result [of STATIC_CACHE_p1 STATIC_ASSETS_p1 e net w]
      install_each_result [of STATIC_CACHE_p3 "STATIC_ASSETS_p3 e" e net w]
    by blast
qed

theorem install_failure_policy_witness:
  "1 < length (STATIC_ASSETS_sw example_env) \<and>
   \<not> addable (net_first_then (page 200 ''basic'' ''<html>shell</html>'') vary_star_page
                (fetched empty_world + 1)) \<and>
   fst (install_sw example_env
          (net_first_then (page 200 ''basic'' ''<html>shell</html>'') vary_star_page)
          empty_world) = Fulfilled \<and>
   store (snd (install_sw example_env
                 (net_first_then (page 200 ''basic'' ''<html>shell</html>'') vary_star_page)
                 empty_world)) = [(STATIC_CACHE_sw, [])] \<and>
   list_all (\<lambda>u. http_scheme (resolve example_env u)) (STATIC_ASSETS_p3 example_env) \<and>
   distinct (map (\<lambda>u. strip_fragment (resolve example_env u)) (STATIC_ASSETS_p3 example_env)) \<and>
   0 < length (STATIC_ASSETS_p3 example_env) \<and>
   addable (net_first_then (page 200 ''basic'' ''<html>shell</html>'') vary_star_page
              (fetched empty_world + 0)) \<and>
   partition_lookup
     (store (snd (install_p3 example_env
                    (net_first_then (page 200 ''basic'' ''<html>shell</html>'') vary_star_page)
                    empty_world)))
     STATIC_CACHE_p3 ''https://app.example/index.html'' [] =
     Some (page 200 ''basic'' ''<html>shell</html>'') \<and>
   count_list
     (trace (snd (install_p3 example_env
                    (net_first_then (page 200 ''basic'' ''<html>shell</html>'') vary_star_page)
                    empty_world)))
     SkipWaiting = 1"
proof -
  let ?net = "net_first_then (page 200 ''basic'' ''<html>shell</html>'') vary_star_page"
  have l: "1 < length (STATIC_ASSETS_sw example_env)"
    by (simp add: STATIC_ASSETS_sw_def)
  have f: "\<not> addable (?net (fetched empty_world + 1))"
    by (simp add: net_first_then_def addable_def vary_star_page_def page_def vary_fields_def
        header_get_def lower_def lower_char_def trim_def is_blank_def)
  have o: "store (caches_open STATIC_CACHE_sw empty_world) = [(STATIC_CACHE_sw, [])]"
    by (simp add: caches_open_def empty_world_def)
  have h: "list_all (\<lambda>u. http_scheme (resolve example_env u)) (STATIC_ASSETS_p3 example_env)"
    by (simp add: STATIC_ASSETS_p3_def example_env_def example_resolve_def http_scheme_def)
  have d: "distinct (map (\<lambda>u. strip_fragment (resolve example_env u))
                      (STATIC_ASSETS_p3 example_env))"
    by (simp add: STATIC_ASSETS_p3_def example_env_def example_resolve_def strip_fragment_def)
  have l3: "0 < length (STATIC_ASSETS_p3 example_env)"
    by (simp add: STATIC_ASSETS_p3_def)
  have a: "addable (?net (fetched empty_world + 0))"
    by (simp add: net_first_then_def addable_def page_def empty_world_def vary_fields_def
        header_get_def)
  have n0: "?net (fetched empty_world + 0) = Some (page 200 ''basic'' ''<html>shell</html>'')"
    by (simp add: net_first_then_def empty_world_def)
  have u: "resolve example_env (STATIC_ASSETS_p3 example_env ! 0) = ''https://app.example/index.html''"
    by (simp add: STATIC_ASSETS_p3_def example_env_def example_resolve_def)
  have t: "count_list (trace empty_world) SkipWaiting = 0"
    by (simp add: empty_world_def)
  have A: "fst (install_sw example_env ?net empty_world) = Fulfilled"
    and B: "store (snd (install_sw example_env ?net empty_world)) = [(STATIC_CACHE_sw, [])]"
    using install_failure_policy [of 1 example_env ?net empty_world] l f o by simp_all
  have C: "partition_lookup (store (snd (install_p3 example_env ?net empty_world)))
             STATIC_CACHE_p3 ''https://app.example/index.html'' [] =
           Some (page 200 ''basic'' ''<html>shell</html>'')"
    and D: "count_list (trace (snd (install_p3 example_env ?net empty_world))) SkipWaiting = 1"
    using install_failure_policy [of 0 example_env ?net empty_world] h d l3 a n0 u t
    by simp_all
  show ?thesis
    by (intro conjI l f A B h d l3 a C D)
qed

text \<open>
  C8 as stated fails in sw.js: with the network down no asset can be fetched, and the
  promise given to \<^verbatim>\<open>waitUntil\<close> still fulfils, so the install is not aborted; the
  static partition is left empty.
\<close>

theorem failed_install_still_fulfils:
  "0 < length (STATIC_ASSETS_sw example_env) \<and>
   \<not> addable (net_down (fetched empty_world + 0)) \<and>
   fst (install_sw example_env net_down empty_world) = Fulfilled \<and>
   store (snd (install_sw example_env net_down empty_world)) = [(STATIC_CACHE_sw, [])] \<and>
   fetched (snd (install_sw example_env net_down empty_world)) = 7"
  by (simp add: install_sw_def install_addAll_def cache_addAll_def fetch_each_result
      STATIC_ASSETS_sw_def CDN_ASSETS_def example_env_def example_resolve_def http_scheme_def
      net_down_def addable_def caches_open_def empty_world_def)

end
